theory Spec2Isabelle
  imports Main "HOL-Library.AList" "HOL-Library.Sublist"
begin

section \<open>JavaScript values\<close>

text \<open>
  The workers and the API routes handle values typed \<open>any\<close> (job payloads, Wikidata
  entities, request bodies). They are modelled by one datatype of JavaScript values.
  Numbers are restricted to integers (no claim computes with them), and an object is the
  list of its own properties in insertion order.
\<close>

datatype jsval =
    JUndefined
  | JNull
  | JBool bool
  | JNum int
  | JStr string
  | JDate int
  | JArr "jsval list"
  | JObj "(string \<times> jsval) list"

type_synonym obj = "(string \<times> jsval) list"

text \<open>Reading a property of an object: \<open>undefined\<close> when the object has no such property.\<close>

definition getProp :: "obj \<Rightarrow> string \<Rightarrow> jsval" where
  "getProp kvs k = (case map_of kvs k of Some v \<Rightarrow> v | None \<Rightarrow> JUndefined)"

text \<open>
  Optional chaining \<open>v?.k\<close>, for property names that only plain objects carry
  (\<open>claims\<close>, \<open>P5991\<close>, \<open>goals\<close>, \<open>currency\<close>, ...): \<open>undefined\<close> on \<open>null\<close>,
  \<open>undefined\<close> and on every value that has no such property.
\<close>

fun optGet :: "jsval \<Rightarrow> string \<Rightarrow> jsval" where
  "optGet (JObj kvs) k = getProp kvs k"
| "optGet v k = JUndefined"

text \<open>JavaScript truthiness (\<open>Boolean(v)\<close>, \<open>if (v)\<close>, \<open>v && ...\<close>).\<close>

fun truthy :: "jsval \<Rightarrow> bool" where
  "truthy JUndefined = False"
| "truthy JNull = False"
| "truthy (JBool b) = b"
| "truthy (JNum n) = (n \<noteq> 0)"
| "truthy (JStr s) = (s \<noteq> [])"
| "truthy (JDate t) = True"
| "truthy (JArr xs) = True"
| "truthy (JObj kvs) = True"

text \<open>
  Assigning a property (\<open>o.k = v\<close>, or \<open>{...o, k: v}\<close>): an existing property keeps its
  place, a new one is added last.
\<close>

definition setProp :: "string \<Rightarrow> jsval \<Rightarrow> obj \<Rightarrow> obj" where
  "setProp k v kvs = AList.update k v kvs"

section \<open>JavaScript strings\<close>





text \<open>\<open>ws.join(sep)\<close>.\<close>

fun joinWith :: "'a list \<Rightarrow> 'a list list \<Rightarrow> 'a list" where
  "joinWith sep [] = []"
| "joinWith sep [w] = w"
| "joinWith sep (w # v # ws) = w @ sep @ joinWith sep (v # ws)"


definition asciiSpace :: "char \<Rightarrow> bool" where
  "asciiSpace c = (c \<in> set [CHR 0x09, CHR 0x0A, CHR 0x0B, CHR 0x0C, CHR 0x0D, CHR '' ''])"

definition asciiTrim :: "string \<Rightarrow> string" where
  "asciiTrim s = rev (dropWhile asciiSpace (rev (dropWhile asciiSpace s)))"

definition asciiUpper :: "string \<Rightarrow> string" where
  "asciiUpper s =
     map (\<lambda>c. case map_of (zip ''abcdefghijklmnopqrstuvwxyz'' ''ABCDEFGHIJKLMNOPQRSTUVWXYZ'') c of
                 Some d \<Rightarrow> d | None \<Rightarrow> c) s"

section \<open>The guessWikidata worker: searching Wikidata\<close>









section \<open>The guessWikidata worker: ranking the candidates and asking\<close>

text \<open>\<open>hasEmissions\<close>: \<open>Boolean(e?.claims?.P5991)\<close>.\<close>

definition hasEmissions :: "jsval \<Rightarrow> bool" where
  "hasEmissions e = truthy (optGet (optGet e ''claims'') ''P5991'')"

text \<open>The comparator handed to \<open>toSorted\<close>.\<close>

definition compareEmissions :: "obj \<Rightarrow> obj \<Rightarrow> int" where
  "compareEmissions a b =
     (if hasEmissions (JObj a) then 0 else 1) - (if hasEmissions (JObj b) then 0 else 1)"

text \<open>
  \<open>Array.prototype.toSorted\<close> is a stable sort by the comparator: an element goes before
  the first later element it does not compare greater than. It is modelled by insertion
  from the right.
\<close>

fun insertBy :: "('a \<Rightarrow> 'a \<Rightarrow> int) \<Rightarrow> 'a \<Rightarrow> 'a list \<Rightarrow> 'a list" where
  "insertBy cmp x [] = [x]"
| "insertBy cmp x (y # ys) = (if cmp x y \<le> 0 then x # y # ys else y # insertBy cmp x ys)"

definition toSorted :: "('a \<Rightarrow> 'a \<Rightarrow> int) \<Rightarrow> 'a list \<Rightarrow> 'a list" where
  "toSorted cmp xs = foldr (insertBy cmp) xs []"

text \<open>The mapping \<open>(e) => ({ ...e, claims: undefined })\<close>.\<close>

definition stripClaims :: "obj \<Rightarrow> jsval" where
  "stripClaims e = JObj (setProp ''claims'' JUndefined e)"

definition orderedResults :: "obj list \<Rightarrow> jsval list" where
  "orderedResults results = map stripClaims (toSorted compareEmissions results)"

text \<open>A role-tagged turn of the request to the language model.\<close>

record message =
  role :: string
  content :: string

text \<open>The filter \<open>(m) => m && m.content?.length > 0\<close> over the array of turns.\<close>

fun keepNonEmpty :: "message option list \<Rightarrow> message list" where
  "keepNonEmpty [] = []"
| "keepNonEmpty (None # ms) = keepNonEmpty ms"
| "keepNonEmpty (Some m # ms) =
     (if length (content m) > 0 then m # keepNonEmpty ms else keepNonEmpty ms)"

text \<open>
  The turns handed to \<open>ask\<close>. \<open>prompt\<close> is \<open>wikidata.prompt\<close> (a constant of a module
  outside the sources), \<open>resultsJson\<close> is \<open>JSON.stringify(orderedResults, null, 2)\<close>, and
  \<open>stacktrace\<close> is \<open>job.stacktrace\<close>: \<open>None\<close> when it is not an array.
\<close>

definition askMessages :: "string \<Rightarrow> string \<Rightarrow> string \<Rightarrow> string list option \<Rightarrow> message list" where
  "askMessages name prompt resultsJson stacktrace =
     keepNonEmpty
       [Some \<lparr>role = ''system'',
              content = ''I have a company named '' @ name @
                '' and I am looking for the wikidata entry related to this company. Be helpful and try to be accurate.''\<rparr>,
        Some \<lparr>role = ''user'', content = prompt\<rparr>,
        Some \<lparr>role = ''assistant'', content = ''OK. Just send me the wikidata search results?''\<rparr>,
        Some \<lparr>role = ''user'', content = resultsJson\<rparr>,
        (case stacktrace of
           Some st \<Rightarrow> Some \<lparr>role = ''user'', content = joinWith [CHR 0x0A] st\<rparr>
         | None \<Rightarrow> None)]"

section \<open>Request validation: the zod schemas of the API routes\<close>

text \<open>
  A schema is the function \<open>schema.parse\<close> computes: from the submitted value to the parsed
  value, or an error. Zod collects every issue of a value; the model reports the first,
  which does not change whether a value is accepted.
\<close>

datatype zodError = ZodError string

type_synonym schema = "jsval \<Rightarrow> zodError + jsval"

definition zString :: schema where
  "zString v = (case v of JStr s \<Rightarrow> Inr v | _ \<Rightarrow> Inl (ZodError ''Expected string''))"

definition zNumber :: schema where
  "zNumber v = (case v of JNum n \<Rightarrow> Inr v | _ \<Rightarrow> Inl (ZodError ''Expected number''))"

text \<open>\<open>z.number().int().min(1).max(16)\<close>.\<close>

definition zCategory :: schema where
  "zCategory v =
     (case v of
        JNum n \<Rightarrow> if 1 \<le> n \<and> n \<le> 16 then Inr v else Inl (ZodError ''Number out of range'')
      | _ \<Rightarrow> Inl (ZodError ''Expected number''))"

definition zOptional :: "schema \<Rightarrow> schema" where
  "zOptional s v = (if v = JUndefined then Inr JUndefined else s v)"

definition zNullable :: "schema \<Rightarrow> schema" where
  "zNullable s v = (if v = JNull then Inr JNull else s v)"

definition zRefine :: "schema \<Rightarrow> (jsval \<Rightarrow> bool) \<Rightarrow> string \<Rightarrow> schema" where
  "zRefine s check msg v =
     (case s v of Inl e \<Rightarrow> Inl e | Inr w \<Rightarrow> if check w then Inr w else Inl (ZodError msg))"

fun parseAll :: "schema \<Rightarrow> jsval list \<Rightarrow> zodError + jsval list" where
  "parseAll s [] = Inr []"
| "parseAll s (v # vs) =
     (case s v of
        Inl e \<Rightarrow> Inl e
      | Inr w \<Rightarrow> (case parseAll s vs of Inl e \<Rightarrow> Inl e | Inr ws \<Rightarrow> Inr (w # ws)))"

definition zArray :: "schema \<Rightarrow> schema" where
  "zArray s v =
     (case v of
        JArr vs \<Rightarrow> (case parseAll s vs of Inl e \<Rightarrow> Inl e | Inr ws \<Rightarrow> Inr (JArr ws))
      | _ \<Rightarrow> Inl (ZodError ''Expected array''))"

text \<open>
  \<open>z.object(shape)\<close>: every key of the shape is parsed from the property of that name;
  unknown properties are dropped, and a key that was not submitted and parses to
  \<open>undefined\<close> is left out of the result.
\<close>

fun parseShape :: "(string \<times> schema) list \<Rightarrow> obj \<Rightarrow> zodError + obj" where
  "parseShape [] kvs = Inr []"
| "parseShape ((k, s) # shape) kvs =
     (case s (getProp kvs k) of
        Inl e \<Rightarrow> Inl e
      | Inr w \<Rightarrow>
          (case parseShape shape kvs of
             Inl e \<Rightarrow> Inl e
           | Inr out \<Rightarrow> Inr (if w = JUndefined \<and> map_of kvs k = None then out else (k, w) # out)))"

definition zObject :: "(string \<times> schema) list \<Rightarrow> schema" where
  "zObject shape v =
     (case v of
        JObj kvs \<Rightarrow> (case parseShape shape kvs of Inl e \<Rightarrow> Inl e | Inr out \<Rightarrow> Inr (JObj out))
      | _ \<Rightarrow> Inl (ZodError ''Expected object''))"

text \<open>
  \<open>z.coerce.date()\<close>: the value goes through \<open>new Date(v)\<close>, a parameter here
  (\<open>newDate v\<close> is the time value in milliseconds, \<open>None\<close> for an invalid date).
\<close>

definition zCoerceDate :: "(jsval \<Rightarrow> int option) \<Rightarrow> schema" where
  "zCoerceDate newDate v =
     (case newDate v of Some t \<Rightarrow> Inr (JDate t) | None \<Rightarrow> Inl (ZodError ''Invalid date''))"

definition goalSchema :: schema where
  "goalSchema =
     zObject [(''description'', zString), (''year'', zOptional zString),
              (''target'', zOptional zNumber), (''baseYear'', zOptional zString)]"

definition initiativeSchema :: schema where
  "initiativeSchema =
     zObject [(''title'', zString), (''description'', zOptional zString),
              (''year'', zOptional zString), (''scope'', zOptional zString)]"

definition equalityItemSchema :: schema where
  "equalityItemSchema =
     zObject [(''description'', zString), (''year'', zOptional zNumber),
              (''target'', zOptional zString), (''baseYear'', zOptional zNumber)]"

definition equalitySchema :: schema where
  "equalitySchema =
     zObject [(''initiatives'', zOptional (zArray equalityItemSchema)),
              (''goals'', zOptional (zArray equalityItemSchema))]"

definition totalSchema :: schema where
  "totalSchema = zObject [(''total'', zNumber)]"

definition statedTotalEmissionsSchema :: schema where
  "statedTotalEmissionsSchema = zNullable (zOptional totalSchema)"

definition scope2Schema :: schema where
  "scope2Schema =
     zNullable (zOptional
       (zRefine
          (zObject [(''mb'', zNullable (zOptional zNumber)),
                    (''lb'', zNullable (zOptional zNumber)),
                    (''unknown'', zNullable (zOptional zNumber))])
          (\<lambda>v. optGet v ''mb'' \<noteq> JUndefined \<or> optGet v ''lb'' \<noteq> JUndefined
                \<or> optGet v ''unknown'' \<noteq> JUndefined)
          ''At least one property of `mb`, `lb` and `unknown` must be defined if scope2 is provided''))"

definition scope3Schema :: schema where
  "scope3Schema =
     zOptional
       (zObject [(''categories'',
                    zOptional (zArray (zObject [(''category'', zCategory),
                                                (''total'', zNullable zNumber)]))),
                 (''statedTotalEmissions'', statedTotalEmissionsSchema)])"

definition emissionsSchema :: schema where
  "emissionsSchema =
     zOptional
       (zObject [(''scope1'', zNullable (zOptional totalSchema)),
                 (''scope2'', scope2Schema),
                 (''scope3'', scope3Schema),
                 (''biogenic'', zNullable (zOptional totalSchema)),
                 (''statedTotalEmissions'', statedTotalEmissionsSchema),
                 (''scope1And2'', zNullable (zOptional totalSchema))])"

definition economySchema :: schema where
  "economySchema =
     zOptional
       (zObject [(''turnover'',
                    zNullable (zOptional (zObject [(''value'', zOptional zNumber),
                                                   (''currency'', zOptional zString)]))),
                 (''employees'',
                    zNullable (zOptional (zObject [(''value'', zOptional zNumber),
                                                   (''unit'', zOptional zString)])))])"

text \<open>The refinement of a reporting period: \<open>startDate.getTime() < endDate.getTime()\<close>.\<close>

definition startsBeforeEnd :: "jsval \<Rightarrow> bool" where
  "startsBeforeEnd v =
     (case optGet v ''startDate'' of
        JDate a \<Rightarrow> (case optGet v ''endDate'' of JDate b \<Rightarrow> a < b | _ \<Rightarrow> False)
      | _ \<Rightarrow> False)"

definition reportingPeriodSchema :: "(jsval \<Rightarrow> int option) \<Rightarrow> schema" where
  "reportingPeriodSchema newDate =
     zRefine
       (zObject [(''startDate'', zCoerceDate newDate),
                 (''endDate'', zCoerceDate newDate),
                 (''reportURL'', zOptional zString),
                 (''emissions'', emissionsSchema),
                 (''economy'', economySchema)])
       startsBeforeEnd
       ''startDate must be earlier than endDate''"

definition postReportingPeriodsSchema :: "(jsval \<Rightarrow> int option) \<Rightarrow> schema" where
  "postReportingPeriodsSchema newDate =
     zObject [(''reportingPeriods'', zArray (reportingPeriodSchema newDate))]"

definition postEmissionsBodySchema :: schema where
  "postEmissionsBodySchema = zObject [(''emissions'', emissionsSchema)]"


section \<open>The persistence layer and settled promises\<close>

text \<open>
  The functions of \<open>lib/prisma\<close> are outside the sources. A call of one of them is
  recorded with its arguments; what the call answers is a parameter \<open>db\<close> of the
  handlers: the promise is fulfilled with a value or rejected with a reason.
\<close>

datatype dbCall =
    UpsertReportingPeriod jsval jsval jsval
  | UpsertEmissions jsval
  | UpsertEconomy jsval
  | UpsertScope1 jsval jsval jsval
  | UpsertScope2 jsval jsval jsval
  | UpsertScope3 jsval jsval jsval
  | UpsertStatedTotalEmissions jsval jsval jsval
  | UpsertBiogenic jsval jsval jsval
  | UpsertScope1And2 jsval jsval jsval
  | UpsertTurnover jsval jsval jsval
  | UpsertEmployees jsval jsval jsval
  | CreateGoals jsval jsval jsval
  | CreateInitiatives jsval jsval jsval
  | CreateEqualities jsval jsval jsval

datatype settled = Fulfilled jsval | Rejected jsval

text \<open>
  An element of the array handed to \<open>Promise.allSettled\<close>: a plain value, or the promise
  of a call that has been made.
\<close>

datatype entry = Plain jsval | Promise dbCall

text \<open>\<open>cond && call(...)\<close> for a boolean condition.\<close>

definition guard :: "bool \<Rightarrow> dbCall \<Rightarrow> entry" where
  "guard cond call = (if cond then Promise call else Plain (JBool False))"

fun callsOf :: "entry list \<Rightarrow> dbCall list" where
  "callsOf [] = []"
| "callsOf (Plain v # es) = callsOf es"
| "callsOf (Promise c # es) = c # callsOf es"

text \<open>\<open>Promise.allSettled\<close>: one outcome per element, each on its own.\<close>

definition allSettled :: "(dbCall \<Rightarrow> settled) \<Rightarrow> entry list \<Rightarrow> settled list" where
  "allSettled db entries =
     map (\<lambda>e. case e of Plain v \<Rightarrow> Fulfilled v | Promise c \<Rightarrow> db c) entries"

definition typeError :: jsval where
  "typeError = JStr ''TypeError''"

text \<open>\<open>v ?? d\<close>.\<close>

definition nullish :: "jsval \<Rightarrow> jsval \<Rightarrow> jsval" where
  "nullish v d = (if v = JUndefined \<or> v = JNull then d else v)"

text \<open>What a handler answers.\<close>

datatype response = Json jsval | ValidationFailed zodError | Failed jsval

definition okResponse :: response where
  "okResponse = Json (JObj [(''ok'', JBool True)])"

section \<open>POST /:wikidataId/reporting-periods\<close>

text \<open>
  The currency normalisation of the handler:
  \<open>if (turnover?.currency) turnover.currency = turnover.currency.trim().toUpperCase()\<close>.
  \<open>Inl\<close> is a thrown error (a truthy currency that is not a string has no \<open>trim\<close>; the
  schema excludes it). \<open>trim\<close> and \<open>toUpperCase\<close> are the built-in functions.
\<close>

definition normaliseCurrency ::
  "(string \<Rightarrow> string) \<Rightarrow> (string \<Rightarrow> string) \<Rightarrow> jsval \<Rightarrow> jsval + jsval" where
  "normaliseCurrency trim toUpperCase turnover =
     (if truthy (optGet turnover ''currency'') then
        (case turnover of
           JObj kvs \<Rightarrow>
             (case getProp kvs ''currency'' of
                JStr c \<Rightarrow> Inr (JObj (setProp ''currency'' (JStr (toUpperCase (trim c))) kvs))
              | _ \<Rightarrow> Inl typeError)
         | _ \<Rightarrow> Inr turnover)
      else Inr turnover)"

text \<open>
  The destructuring of \<open>emissions\<close> and \<open>economy\<close>, the normalisation and the array of
  the inner \<open>Promise.allSettled\<close>.
\<close>

definition periodFieldGroups ::
  "(string \<Rightarrow> string) \<Rightarrow> (string \<Rightarrow> string) \<Rightarrow>
   jsval \<Rightarrow> jsval \<Rightarrow> jsval \<Rightarrow> jsval \<Rightarrow> jsval \<Rightarrow> jsval + entry list" where
  "periodFieldGroups trim toUpperCase dbEmissions dbEconomy metadata emissions economy =
     (let scope1 = optGet emissions ''scope1'';
          scope2 = optGet emissions ''scope2'';
          scope3 = optGet emissions ''scope3'';
          statedTotalEmissions = optGet emissions ''statedTotalEmissions'';
          biogenic = optGet emissions ''biogenic'';
          scope1And2 = optGet emissions ''scope1And2'';
          employees = optGet economy ''employees''
      in case normaliseCurrency trim toUpperCase (optGet economy ''turnover'') of
           Inl err \<Rightarrow> Inl err
         | Inr turnover \<Rightarrow>
             Inr [guard (scope1 \<noteq> JUndefined) (UpsertScope1 dbEmissions scope1 metadata),
                  guard (scope2 \<noteq> JUndefined) (UpsertScope2 dbEmissions scope2 metadata),
                  (if truthy scope3 then Promise (UpsertScope3 dbEmissions scope3 metadata)
                   else Plain scope3),
                  guard (statedTotalEmissions \<noteq> JUndefined)
                    (UpsertStatedTotalEmissions dbEmissions statedTotalEmissions metadata),
                  guard (biogenic \<noteq> JUndefined) (UpsertBiogenic dbEmissions biogenic metadata),
                  guard (scope1And2 \<noteq> JUndefined) (UpsertScope1And2 dbEmissions scope1And2 metadata),
                  guard (turnover \<noteq> JUndefined) (UpsertTurnover dbEconomy turnover metadata),
                  guard (employees \<noteq> JUndefined) (UpsertEmployees dbEconomy employees metadata)])"

text \<open>
  The body of the \<open>async\<close> function mapped over the reporting periods. It returns the
  calls made for the period in the order of the source, the value of the inner
  \<open>Promise.allSettled\<close> (which the handler does not read), and how the period's own
  promise settles. \<open>yearOf t\<close> is \<open>new Date(t).getFullYear().toString()\<close>.
\<close>

definition savePeriod ::
  "(string \<Rightarrow> string) \<Rightarrow> (string \<Rightarrow> string) \<Rightarrow>
   (dbCall \<Rightarrow> settled) \<Rightarrow> (int \<Rightarrow> string) \<Rightarrow> obj \<Rightarrow> jsval \<Rightarrow> jsval \<Rightarrow>
   dbCall list \<times> settled list \<times> settled" where
  "savePeriod trim toUpperCase db yearOf company metadata period =
     (let emissions = (if optGet period ''emissions'' = JUndefined then JObj []
                       else optGet period ''emissions'');
          economy = (if optGet period ''economy'' = JUndefined then JObj []
                     else optGet period ''economy'');
          startDate = optGet period ''startDate'';
          endDate = optGet period ''endDate'';
          reportURL = optGet period ''reportURL''
      in case endDate of
           JDate t \<Rightarrow>
             (let year = JStr (yearOf t);
                  c0 = UpsertReportingPeriod (JObj company) metadata
                         (JObj [(''startDate'', startDate), (''endDate'', endDate),
                                (''reportURL'', reportURL), (''year'', year)])
              in case db c0 of
                   Rejected r \<Rightarrow> ([c0], [], Rejected r)
                 | Fulfilled reportingPeriod \<Rightarrow>
                     (if reportingPeriod = JUndefined \<or> reportingPeriod = JNull
                      then ([c0], [], Rejected typeError)
                      else
                        let c1 = UpsertEmissions
                                   (JObj [(''emissionsId'',
                                             nullish (optGet reportingPeriod ''emissionsId'') (JNum 0)),
                                          (''companyId'', getProp company ''wikidataId''),
                                          (''year'', year)]);
                            c2 = UpsertEconomy
                                   (JObj [(''economyId'',
                                             nullish (optGet reportingPeriod ''economyId'') (JNum 0)),
                                          (''companyId'', getProp company ''wikidataId''),
                                          (''year'', year)])
                        in case db c1 of
                             Rejected r \<Rightarrow> ([c0, c1, c2], [], Rejected r)
                           | Fulfilled dbEmissions \<Rightarrow>
                               (case db c2 of
                                  Rejected r \<Rightarrow> ([c0, c1, c2], [], Rejected r)
                                | Fulfilled dbEconomy \<Rightarrow>
                                    (case periodFieldGroups trim toUpperCase dbEmissions dbEconomy metadata
                                            emissions economy of
                                       Inl err \<Rightarrow> ([c0, c1, c2], [], Rejected err)
                                     | Inr entries \<Rightarrow>
                                         ([c0, c1, c2] @ callsOf entries,
                                          allSettled db entries, Fulfilled JUndefined)))))
         | _ \<Rightarrow> ([], [], Rejected typeError))"

text \<open>
  The handler. It parses \<open>req.body\<close> with the schema itself (the middleware in front of it
  validates with the same schema), runs every period, and answers \<open>{ ok: true }\<close>; the
  second component lists what each period did.
\<close>

definition postReportingPeriods ::
  "(string \<Rightarrow> string) \<Rightarrow> (string \<Rightarrow> string) \<Rightarrow>
   (dbCall \<Rightarrow> settled) \<Rightarrow> (jsval \<Rightarrow> int option) \<Rightarrow> (int \<Rightarrow> string) \<Rightarrow> obj \<Rightarrow> jsval \<Rightarrow> jsval \<Rightarrow>
   response \<times> (dbCall list \<times> settled list \<times> settled) list" where
  "postReportingPeriods trim toUpperCase db newDate yearOf company metadata reqBody =
     (case postReportingPeriodsSchema newDate reqBody of
        Inl e \<Rightarrow> (ValidationFailed e, [])
      | Inr parsed \<Rightarrow>
          (case optGet parsed ''reportingPeriods'' of
             JArr reportingPeriods \<Rightarrow>
               (okResponse, map (savePeriod trim toUpperCase db yearOf company metadata) reportingPeriods)
           | _ \<Rightarrow> (Failed typeError, [])))"

section \<open>POST /:wikidataId/:year/emissions and POST /:wikidataId/:year/economy\<close>

text \<open>The array of the emissions handler's \<open>Promise.allSettled\<close>.\<close>

definition emissionsFieldGroups :: "jsval \<Rightarrow> jsval \<Rightarrow> jsval \<Rightarrow> entry list" where
  "emissionsFieldGroups dbEmissions metadata emissions =
     (let scope1 = optGet emissions ''scope1'';
          scope2 = optGet emissions ''scope2'';
          scope3 = optGet emissions ''scope3'';
          scope1And2 = optGet emissions ''scope1And2'';
          statedTotalEmissions = optGet emissions ''statedTotalEmissions'';
          biogenic = optGet emissions ''biogenic''
      in [guard (scope1 \<noteq> JUndefined) (UpsertScope1 dbEmissions scope1 metadata),
          guard (scope2 \<noteq> JUndefined) (UpsertScope2 dbEmissions scope2 metadata),
          (if truthy scope3 then Promise (UpsertScope3 dbEmissions scope3 metadata)
           else Plain scope3),
          guard (scope1And2 \<noteq> JUndefined) (UpsertScope1And2 dbEmissions scope1And2 metadata),
          guard (statedTotalEmissions \<noteq> JUndefined)
            (UpsertStatedTotalEmissions dbEmissions statedTotalEmissions metadata),
          guard (biogenic \<noteq> JUndefined) (UpsertBiogenic dbEmissions biogenic metadata)])"

text \<open>
  The emissions handler: the answer, the calls made, and the value of
  \<open>Promise.allSettled\<close>. \<open>dbEmissions\<close> is \<open>res.locals.emissions\<close>.
\<close>

definition postEmissions ::
  "(dbCall \<Rightarrow> settled) \<Rightarrow> jsval \<Rightarrow> jsval \<Rightarrow> jsval \<Rightarrow> response \<times> dbCall list \<times> settled list" where
  "postEmissions db dbEmissions metadata reqBody =
     (case postEmissionsBodySchema reqBody of
        Inl e \<Rightarrow> (ValidationFailed e, [], [])
      | Inr parsed \<Rightarrow>
          (let emissions = (if optGet parsed ''emissions'' = JUndefined then JObj []
                            else optGet parsed ''emissions'');
               entries = emissionsFieldGroups dbEmissions metadata emissions
           in (okResponse, callsOf entries, allSettled db entries)))"



section \<open>POST /:wikidataId/goals, /initiatives and /equalities\<close>

text \<open>
  Modelled from the spec: the validation middleware \<open>processRequest\<close> (module
  \<open>./zod-middleware\<close>, outside the sources) refuses a body that its schema does not
  accept before the handler runs, and the handler reads the parsed body.
\<close>

definition processRequest ::
  "schema \<Rightarrow> (jsval \<Rightarrow> response \<times> dbCall list) \<Rightarrow> jsval \<Rightarrow> response \<times> dbCall list" where
  "processRequest bodySchema handler reqBody =
     (case bodySchema reqBody of
        Inl e \<Rightarrow> (ValidationFailed e, [])
      | Inr parsed \<Rightarrow> handler parsed)"

text \<open>The truthiness of \<open>v?.length\<close>.\<close>

fun hasLength :: "jsval \<Rightarrow> bool" where
  "hasLength (JArr xs) = (xs \<noteq> [])"
| "hasLength (JStr s) = (s \<noteq> [])"
| "hasLength (JObj kvs) = truthy (getProp kvs ''length'')"
| "hasLength v = False"

text \<open>
  The three handlers: the awaited create call is made only for a non-empty array; a
  rejected call fails the request, otherwise the answer is \<open>{ ok: true }\<close>.
\<close>

definition goalsHandler :: "(dbCall \<Rightarrow> settled) \<Rightarrow> jsval \<Rightarrow> jsval \<Rightarrow> jsval \<Rightarrow> response \<times> dbCall list" where
  "goalsHandler db wikidataId metadata reqBody =
     (let goals = optGet reqBody ''goals''
      in if hasLength goals then
           (case db (CreateGoals wikidataId goals metadata) of
              Rejected r \<Rightarrow> (Failed r, [CreateGoals wikidataId goals metadata])
            | Fulfilled v \<Rightarrow> (okResponse, [CreateGoals wikidataId goals metadata]))
         else (okResponse, []))"

definition initiativesHandler ::
  "(dbCall \<Rightarrow> settled) \<Rightarrow> jsval \<Rightarrow> jsval \<Rightarrow> jsval \<Rightarrow> response \<times> dbCall list" where
  "initiativesHandler db wikidataId metadata reqBody =
     (let initiatives = optGet reqBody ''initiatives''
      in if hasLength initiatives then
           (case db (CreateInitiatives wikidataId initiatives metadata) of
              Rejected r \<Rightarrow> (Failed r, [CreateInitiatives wikidataId initiatives metadata])
            | Fulfilled v \<Rightarrow> (okResponse, [CreateInitiatives wikidataId initiatives metadata]))
         else (okResponse, []))"

definition equalitiesHandler ::
  "(dbCall \<Rightarrow> settled) \<Rightarrow> jsval \<Rightarrow> jsval \<Rightarrow> jsval \<Rightarrow> response \<times> dbCall list" where
  "equalitiesHandler db wikidataId metadata reqBody =
     (let submitted = optGet reqBody ''equalities''
      in if hasLength submitted then
           (case db (CreateEqualities wikidataId submitted metadata) of
              Rejected r \<Rightarrow> (Failed r, [CreateEqualities wikidataId submitted metadata])
            | Fulfilled v \<Rightarrow> (okResponse, [CreateEqualities wikidataId submitted metadata]))
         else (okResponse, []))"

definition postGoals :: "(dbCall \<Rightarrow> settled) \<Rightarrow> jsval \<Rightarrow> jsval \<Rightarrow> jsval \<Rightarrow> response \<times> dbCall list" where
  "postGoals db wikidataId metadata =
     processRequest (zObject [(''goals'', zArray goalSchema)]) (goalsHandler db wikidataId metadata)"

definition postInitiatives ::
  "(dbCall \<Rightarrow> settled) \<Rightarrow> jsval \<Rightarrow> jsval \<Rightarrow> jsval \<Rightarrow> response \<times> dbCall list" where
  "postInitiatives db wikidataId metadata =
     processRequest (zObject [(''initiatives'', zArray initiativeSchema)])
       (initiativesHandler db wikidataId metadata)"

definition postEqualities ::
  "(dbCall \<Rightarrow> settled) \<Rightarrow> jsval \<Rightarrow> jsval \<Rightarrow> jsval \<Rightarrow> response \<times> dbCall list" where
  "postEqualities db wikidataId metadata =
     processRequest (zObject [(''equalities'', zArray equalitySchema)])
       (equalitiesHandler db wikidataId metadata)"

text \<open>
  The store changes through the calls only: its state after a request is the state
  before, with the effect of each call made, in order.
\<close>

definition storeAfter :: "(dbCall \<Rightarrow> 'st \<Rightarrow> 'st) \<Rightarrow> dbCall list \<Rightarrow> 'st \<Rightarrow> 'st" where
  "storeAfter effect calls st = foldl (\<lambda>s c. effect c s) st calls"

section \<open>The diffEqualities worker\<close>

text \<open>
  The job's data as the class declares it; \<open>other\<close> holds the remaining properties of
  \<open>DiscordJob['data']\<close>.
\<close>

record diffEqualitiesData =
  url :: string
  companyName :: string
  existingCompany :: jsval
  wikidata :: jsval
  equalities :: jsval
  other :: obj

text \<open>The data of the job added to the saveToAPI queue: the spread job data and the new properties.\<close>

record saveToAPIData = diffEqualitiesData +
  body :: jsval
  diff :: string
  requiresApproval :: bool
  apiSubEndpoint :: string

text \<open>The \<open>before\<close> argument of the worker's call of \<open>diffChanges\<close>.\<close>

definition diffEqualitiesBefore :: "diffEqualitiesData \<Rightarrow> jsval" where
  "diffEqualitiesBefore d = optGet (existingCompany d) ''goals''"

text \<open>
  The worker. \<open>defaultMetadata\<close> and \<open>diffChanges\<close> (module \<open>lib/saveUtils\<close>) are
  parameters; \<open>diffChanges existingCompany before after\<close> answers the diff, a string, and
  the approval flag. The worker returns the jobs it adds to the saveToAPI queue (name and
  data) and its own result.
\<close>

definition diffEqualities ::
  "(string \<Rightarrow> jsval) \<Rightarrow> (jsval \<Rightarrow> jsval \<Rightarrow> jsval \<Rightarrow> string \<times> bool) \<Rightarrow> diffEqualitiesData \<Rightarrow>
   (string \<times> saveToAPIData) list \<times> (jsval \<times> string \<times> bool)" where
  "diffEqualities defaultMetadata diffChanges d =
     (let metadata = defaultMetadata (url d);
          newBody = JObj [(''equalities'', equalities d), (''metadata'', metadata)];
          (theDiff, approval) = diffChanges (existingCompany d) (diffEqualitiesBefore d) (equalities d)
      in ((if theDiff \<noteq> [] then
             [(companyName d @ '' equalities'',
               diffEqualitiesData.extend d
                 \<lparr>body = newBody, diff = theDiff, requiresApproval = approval,
                  apiSubEndpoint = ''equalities''\<rparr>
                 \<lparr>equalities := JUndefined\<rparr>)]
           else []),
          (newBody, theDiff, approval)))"

section \<open>Auxiliary notions for the field-group upserts\<close>

text \<open>The upserts of the field groups of a reporting period.\<close>

fun isFieldGroupCall :: "dbCall \<Rightarrow> bool" where
  "isFieldGroupCall (UpsertScope1 a v m) = True"
| "isFieldGroupCall (UpsertScope2 a v m) = True"
| "isFieldGroupCall (UpsertScope3 a v m) = True"
| "isFieldGroupCall (UpsertStatedTotalEmissions a v m) = True"
| "isFieldGroupCall (UpsertBiogenic a v m) = True"
| "isFieldGroupCall (UpsertScope1And2 a v m) = True"
| "isFieldGroupCall (UpsertTurnover a v m) = True"
| "isFieldGroupCall (UpsertEmployees a v m) = True"
| "isFieldGroupCall c = False"

text \<open>An array element that is a plain value or the promise of a field-group upsert.\<close>

definition entryOk :: "entry \<Rightarrow> bool" where
  "entryOk e = (case e of Plain v \<Rightarrow> True | Promise c \<Rightarrow> isFieldGroupCall c)"

section \<open>Properties of the string operations\<close>





















section \<open>Properties of the Wikidata search\<close>






section \<open>Properties of the ranking\<close>

lemma insertBy_has:
  "hasEmissions (JObj x) \<Longrightarrow> insertBy compareEmissions x ys = x # ys"
  by (cases ys) (auto simp: compareEmissions_def)

lemma insertBy_hasnot:
  "\<not> hasEmissions (JObj x) \<Longrightarrow>
   insertBy compareEmissions x
     (filter (\<lambda>e. hasEmissions (JObj e)) ys @ filter (\<lambda>e. \<not> hasEmissions (JObj e)) zs)
   = filter (\<lambda>e. hasEmissions (JObj e)) ys @ x # filter (\<lambda>e. \<not> hasEmissions (JObj e)) zs"
proof (induction ys)
  case Nil
  then show ?case
    by (cases "filter (\<lambda>e. \<not> hasEmissions (JObj e)) zs")
       (auto simp: compareEmissions_def filter_eq_Cons_iff)
next
  case (Cons y ys)
  then show ?case by (auto simp: compareEmissions_def)
qed

lemma toSorted_partition:
  "toSorted compareEmissions xs =
   filter (\<lambda>e. hasEmissions (JObj e)) xs @ filter (\<lambda>e. \<not> hasEmissions (JObj e)) xs"
proof (induction xs)
  case Nil
  then show ?case by (simp add: toSorted_def)
next
  case (Cons x xs)
  then have ih: "foldr (insertBy compareEmissions) xs [] =
      filter (\<lambda>e. hasEmissions (JObj e)) xs @ filter (\<lambda>e. \<not> hasEmissions (JObj e)) xs"
    by (simp add: toSorted_def)
  show ?case
  proof (cases "hasEmissions (JObj x)")
    case True
    then show ?thesis by (simp add: toSorted_def ih insertBy_has)
  next
    case False
    then show ?thesis by (simp add: toSorted_def ih insertBy_hasnot)
  qed
qed

lemma getProp_setProp: "getProp (setProp k v kvs) k' = (if k' = k then v else getProp kvs k')"
  by (simp add: getProp_def setProp_def update_conv')

lemma stripClaims_claims: "optGet (stripClaims e) ''claims'' = JUndefined"
  by (simp add: stripClaims_def getProp_setProp)

text \<open>
  Claim C5. The candidates handed to the language model are the fetched entities that
  have the carbon footprint claim (P5991), in their original order, followed by those
  that do not, in their original order; every candidate's \<open>claims\<close> property reads
  \<open>undefined\<close>, and its other properties are those of the entity.
\<close>

theorem orderedResults_stable_partition:
  "orderedResults results =
     map stripClaims (filter (\<lambda>e. hasEmissions (JObj e)) results)
     @ map stripClaims (filter (\<lambda>e. \<not> hasEmissions (JObj e)) results)
   \<and> (\<forall>c \<in> set (orderedResults results). optGet c ''claims'' = JUndefined)
   \<and> (\<forall>e k. k \<noteq> ''claims'' \<longrightarrow> optGet (stripClaims e) k = getProp e k)"
proof (intro conjI)
  show "orderedResults results =
     map stripClaims (filter (\<lambda>e. hasEmissions (JObj e)) results)
     @ map stripClaims (filter (\<lambda>e. \<not> hasEmissions (JObj e)) results)"
    by (simp add: orderedResults_def toSorted_partition)
  show "\<forall>c \<in> set (orderedResults results). optGet c ''claims'' = JUndefined"
    by (auto simp: orderedResults_def stripClaims_claims)
  show "\<forall>e k. k \<noteq> ''claims'' \<longrightarrow> optGet (stripClaims e) k = getProp e k"
    by (simp add: stripClaims_def getProp_setProp)
qed

theorem orderedResults_stable_partition_witness:
  "orderedResults
     [[(''id'', JStr ''Q1'')],
      [(''id'', JStr ''Q2''), (''claims'', JObj [(''P5991'', JArr [])])],
      [(''id'', JStr ''Q3''), (''claims'', JObj [])],
      [(''id'', JStr ''Q4''), (''claims'', JObj [(''P5991'', JArr [])])]]
   = [JObj [(''id'', JStr ''Q2''), (''claims'', JUndefined)],
      JObj [(''id'', JStr ''Q4''), (''claims'', JUndefined)],
      JObj [(''id'', JStr ''Q1''), (''claims'', JUndefined)],
      JObj [(''id'', JStr ''Q3''), (''claims'', JUndefined)]]
   \<and> optGet (JObj [(''id'', JStr ''Q2''), (''claims'', JUndefined)]) ''claims'' = JUndefined"
  using orderedResults_stable_partition
    [of "[[(''id'', JStr ''Q1'')],
          [(''id'', JStr ''Q2''), (''claims'', JObj [(''P5991'', JArr [])])],
          [(''id'', JStr ''Q3''), (''claims'', JObj [])],
          [(''id'', JStr ''Q4''), (''claims'', JObj [(''P5991'', JArr [])])]]"]
  by (simp add: hasEmissions_def stripClaims_def setProp_def getProp_def)

section \<open>Properties of the request to the language model\<close>

lemma keepNonEmpty_append: "keepNonEmpty (ms @ ns) = keepNonEmpty ms @ keepNonEmpty ns"
  by (induction ms rule: keepNonEmpty.induct) auto

lemma joinWith_newline_empty: "joinWith [CHR 0x0A] st = [] \<longleftrightarrow> st = [] \<or> st = [[]]"
  by (induction "[CHR 0x0A]" st rule: joinWith.induct) auto

text \<open>
  Claim C7, as the source has it. When the job's stacktrace is a non-empty array other
  than the array whose only message is the empty string, the request is the request of
  a job without stacktrace followed by one user turn whose content is exactly the
  messages joined by newlines. When the stacktrace is not an array, is empty, or holds
  only the empty string, the request is the request of a job without stacktrace, whose
  turns are the four fixed ones.
\<close>

theorem askMessages_stacktrace:
  "(st \<noteq> [] \<and> st \<noteq> [''''] \<longrightarrow>
      askMessages n p r (Some st)
        = askMessages n p r None @ [\<lparr>role = ''user'', content = joinWith [CHR 0x0A] st\<rparr>])
   \<and> (st = [] \<or> st = [''''] \<longrightarrow> askMessages n p r (Some st) = askMessages n p r None)
   \<and> (\<forall>m \<in> set (askMessages n p r None).
         m = \<lparr>role = ''system'', content = ''I have a company named '' @ n @
                '' and I am looking for the wikidata entry related to this company. Be helpful and try to be accurate.''\<rparr>
         \<or> m = \<lparr>role = ''user'', content = p\<rparr>
         \<or> m = \<lparr>role = ''assistant'', content = ''OK. Just send me the wikidata search results?''\<rparr>
         \<or> m = \<lparr>role = ''user'', content = r\<rparr>)"
proof (intro conjI impI)
  assume "st \<noteq> [] \<and> st \<noteq> ['''']"
  then have "joinWith [CHR 0x0A] st \<noteq> []" by (simp add: joinWith_newline_empty)
  then show "askMessages n p r (Some st)
        = askMessages n p r None @ [\<lparr>role = ''user'', content = joinWith [CHR 0x0A] st\<rparr>]"
    by (simp add: askMessages_def)
next
  assume "st = [] \<or> st = ['''']"
  then have "joinWith [CHR 0x0A] st = []" by (simp add: joinWith_newline_empty)
  then show "askMessages n p r (Some st) = askMessages n p r None"
    by (simp add: askMessages_def)
next
  show "\<forall>m \<in> set (askMessages n p r None).
         m = \<lparr>role = ''system'', content = ''I have a company named '' @ n @
                '' and I am looking for the wikidata entry related to this company. Be helpful and try to be accurate.''\<rparr>
         \<or> m = \<lparr>role = ''user'', content = p\<rparr>
         \<or> m = \<lparr>role = ''assistant'', content = ''OK. Just send me the wikidata search results?''\<rparr>
         \<or> m = \<lparr>role = ''user'', content = r\<rparr>"
    by (auto simp: askMessages_def)
qed

theorem askMessages_stacktrace_witness:
  "[''first failure'', ''second failure''] \<noteq> [[]]
   \<and> askMessages ''Acme'' ''prompt'' ''[]'' (Some [''first failure'', ''second failure''])
       = askMessages ''Acme'' ''prompt'' ''[]'' None
         @ [\<lparr>role = ''user'', content = ''first failure'' @ [CHR 0x0A] @ ''second failure''\<rparr>]"
  using askMessages_stacktrace[of "[''first failure'', ''second failure'']" "''Acme''" "''prompt''" "''[]''"]
  by simp

text \<open>
  The claim as stated fails for the stacktrace whose only message is the empty string:
  it is a non-empty array, and the request has no turn for it.
\<close>

theorem askMessages_stacktrace_counterexample:
  "[''''] \<noteq> ([] :: string list)
   \<and> \<lparr>role = ''user'', content = joinWith [CHR 0x0A] ['''']\<rparr>
       \<notin> set (askMessages ''Acme'' ''prompt'' ''[]'' (Some ['''']))
   \<and> askMessages ''Acme'' ''prompt'' ''[]'' (Some ['''']) = askMessages ''Acme'' ''prompt'' ''[]'' None"
  by (simp add: askMessages_def)

section \<open>Properties of the diffEqualities worker\<close>

text \<open>
  Claim C2, as the source has it. The worker adds a job to the saveToAPI queue exactly
  when the diff that \<open>diffChanges\<close> answers is non-empty, whatever the approval flag
  is, and then it adds exactly one: named after the company, carrying the diff, the
  approval flag as \<open>diffChanges\<close> answered it, a body with the proposed equalities and
  the metadata made for this job, the sub-endpoint \<open>equalities\<close>, and the job's own data
  with \<open>equalities\<close> set to \<open>undefined\<close>.
\<close>

theorem diffEqualities_enqueues_iff_diff:
  assumes dc: "diffChanges (existingCompany d) (diffEqualitiesBefore d) (equalities d) = (theDiff, approval)"
  shows "(fst (diffEqualities defaultMetadata diffChanges d) \<noteq> [] \<longleftrightarrow> theDiff \<noteq> [])
    \<and> (theDiff \<noteq> [] \<longrightarrow>
         (\<exists>p. fst (diffEqualities defaultMetadata diffChanges d) = [(companyName d @ '' equalities'', p)]
            \<and> diff p = theDiff \<and> requiresApproval p = approval
            \<and> body p = JObj [(''equalities'', equalities d), (''metadata'', defaultMetadata (url d))]
            \<and> apiSubEndpoint p = ''equalities''
            \<and> diffEqualitiesData.truncate p = d\<lparr>equalities := JUndefined\<rparr>))
    \<and> snd (diffEqualities defaultMetadata diffChanges d)
        = (JObj [(''equalities'', equalities d), (''metadata'', defaultMetadata (url d))], theDiff, approval)"
  using dc
  by (auto simp: diffEqualities_def Let_def diffEqualitiesData.extend_def
      diffEqualitiesData.truncate_def saveToAPIData.defs)

theorem diffEqualities_enqueues_iff_diff_witness:
  "fst (diffEqualities (\<lambda>u. JObj [(''source'', JStr u)])
         (\<lambda>c b a. (if b = a then [] else ''changed'', b \<noteq> a))
         \<lparr>url = ''https://example.com/report.pdf'', companyName = ''Acme'',
          existingCompany = JObj [(''goals'', JArr [])], wikidata = JObj [(''node'', JStr ''Q1'')],
          equalities = JArr [JObj [(''description'', JStr ''parity'')]], other = []\<rparr>)
   = [(''Acme equalities'',
       \<lparr>url = ''https://example.com/report.pdf'', companyName = ''Acme'',
        existingCompany = JObj [(''goals'', JArr [])], wikidata = JObj [(''node'', JStr ''Q1'')],
        equalities = JUndefined, other = [],
        body = JObj [(''equalities'', JArr [JObj [(''description'', JStr ''parity'')]]),
                     (''metadata'', JObj [(''source'', JStr ''https://example.com/report.pdf'')])],
        diff = ''changed'', requiresApproval = True, apiSubEndpoint = ''equalities''\<rparr>)]
   \<and> fst (diffEqualities (\<lambda>u. JObj [(''source'', JStr u)])
         (\<lambda>c b a. (if b = a then [] else ''changed'', b \<noteq> a))
         \<lparr>url = ''https://example.com/report.pdf'', companyName = ''Acme'',
          existingCompany = JObj [(''goals'', JArr [])], wikidata = JObj [(''node'', JStr ''Q1'')],
          equalities = JArr [], other = []\<rparr>)
   = []"
proof -
  let ?md = "\<lambda>u. JObj [(''source'', JStr u)]"
  let ?dc = "\<lambda>c b a :: jsval. (if b = a then [] else ''changed'', b \<noteq> a)"
  let ?d1 = "\<lparr>url = ''https://example.com/report.pdf'', companyName = ''Acme'',
          existingCompany = JObj [(''goals'', JArr [])], wikidata = JObj [(''node'', JStr ''Q1'')],
          equalities = JArr [JObj [(''description'', JStr ''parity'')]], other = []\<rparr>"
  let ?d2 = "\<lparr>url = ''https://example.com/report.pdf'', companyName = ''Acme'',
          existingCompany = JObj [(''goals'', JArr [])], wikidata = JObj [(''node'', JStr ''Q1'')],
          equalities = JArr [], other = []\<rparr>"
  have h1: "?dc (existingCompany ?d1) (diffEqualitiesBefore ?d1) (equalities ?d1) = (''changed'', True)"
    by (simp add: diffEqualitiesBefore_def getProp_def)
  have h2: "?dc (existingCompany ?d2) (diffEqualitiesBefore ?d2) (equalities ?d2) = ([], False)"
    by (simp add: diffEqualitiesBefore_def getProp_def)
  note t1 = diffEqualities_enqueues_iff_diff[where diffChanges = ?dc and d = ?d1 and defaultMetadata = ?md, OF h1]
  note t2 = diffEqualities_enqueues_iff_diff[where diffChanges = ?dc and d = ?d2 and defaultMetadata = ?md, OF h2]
  from t2 have e2: "fst (diffEqualities ?md ?dc ?d2) = []" by simp
  from t1 obtain p where p: "fst (diffEqualities ?md ?dc ?d1) = [(companyName ?d1 @ '' equalities'', p)]"
    and f: "diff p = ''changed''" "requiresApproval p = True"
      "body p = JObj [(''equalities'', equalities ?d1), (''metadata'', ?md (url ?d1))]"
      "apiSubEndpoint p = ''equalities''"
      "diffEqualitiesData.truncate p = ?d1\<lparr>equalities := JUndefined\<rparr>"
    by auto
  from f have "p = \<lparr>url = ''https://example.com/report.pdf'', companyName = ''Acme'',
        existingCompany = JObj [(''goals'', JArr [])], wikidata = JObj [(''node'', JStr ''Q1'')],
        equalities = JUndefined, other = [],
        body = JObj [(''equalities'', JArr [JObj [(''description'', JStr ''parity'')]]),
                     (''metadata'', JObj [(''source'', JStr ''https://example.com/report.pdf'')])],
        diff = ''changed'', requiresApproval = True, apiSubEndpoint = ''equalities''\<rparr>"
    by (cases p) (simp add: diffEqualitiesData.truncate_def)
  with p e2 show ?thesis by simp
qed

text \<open>
  The claim as stated fails where \<open>diffChanges\<close> answers a non-empty diff with the
  approval flag false: the worker looks at the diff only, and queues the save job.
\<close>

theorem diffEqualities_enqueues_iff_diff_counterexample:
  "snd (snd (snd (diffEqualities (\<lambda>u. JObj [(''source'', JStr u)])
         (\<lambda>c b a. (''x'', False))
         \<lparr>url = ''https://example.com/report.pdf'', companyName = ''Acme'',
          existingCompany = JObj [(''goals'', JArr [])], wikidata = JObj [(''node'', JStr ''Q1'')],
          equalities = JArr [], other = []\<rparr>))) = False
   \<and> fst (diffEqualities (\<lambda>u. JObj [(''source'', JStr u)])
         (\<lambda>c b a. (''x'', False))
         \<lparr>url = ''https://example.com/report.pdf'', companyName = ''Acme'',
          existingCompany = JObj [(''goals'', JArr [])], wikidata = JObj [(''node'', JStr ''Q1'')],
          equalities = JArr [], other = []\<rparr>)
   = [(''Acme equalities'',
       \<lparr>url = ''https://example.com/report.pdf'', companyName = ''Acme'',
        existingCompany = JObj [(''goals'', JArr [])], wikidata = JObj [(''node'', JStr ''Q1'')],
        equalities = JUndefined, other = [],
        body = JObj [(''equalities'', JArr []),
                     (''metadata'', JObj [(''source'', JStr ''https://example.com/report.pdf'')])],
        diff = ''x'', requiresApproval = False, apiSubEndpoint = ''equalities''\<rparr>)]"
  by (simp add: diffEqualities_def Let_def diffEqualitiesData.extend_def
      diffEqualitiesData.truncate_def saveToAPIData.defs)

text \<open>
  Claim C1 at a concrete job. The company's stored goals and stored equalities differ,
  and the proposed equalities are the stored ones. The \<open>before\<close> argument of
  \<open>diffChanges\<close> is the stored goals, so a \<open>diffChanges\<close> that compares its two fragments
  reports a change, and a save job is queued for unchanged equalities.
\<close>

theorem diffEqualities_before_is_goals:
  "diffEqualitiesBefore
     \<lparr>url = ''https://example.com/report.pdf'', companyName = ''Acme'',
      existingCompany =
        JObj [(''goals'', JArr [JObj [(''description'', JStr ''net zero in 2040'')]]),
              (''equalities'', JArr [JObj [(''description'', JStr ''parity'')]])],
      wikidata = JObj [(''node'', JStr ''Q1'')],
      equalities = JArr [JObj [(''description'', JStr ''parity'')]], other = []\<rparr>
   = JArr [JObj [(''description'', JStr ''net zero in 2040'')]]
   \<and> optGet (JObj [(''goals'', JArr [JObj [(''description'', JStr ''net zero in 2040'')]]),
                    (''equalities'', JArr [JObj [(''description'', JStr ''parity'')]])]) ''equalities''
       = JArr [JObj [(''description'', JStr ''parity'')]]
   \<and> map fst (fst (diffEqualities (\<lambda>u. JNull)
         (\<lambda>c b a. (if b = a then [] else ''changed'', b \<noteq> a))
         \<lparr>url = ''https://example.com/report.pdf'', companyName = ''Acme'',
          existingCompany =
            JObj [(''goals'', JArr [JObj [(''description'', JStr ''net zero in 2040'')]]),
                  (''equalities'', JArr [JObj [(''description'', JStr ''parity'')]])],
          wikidata = JObj [(''node'', JStr ''Q1'')],
          equalities = JArr [JObj [(''description'', JStr ''parity'')]], other = []\<rparr>))
       = [''Acme equalities'']"
  by (simp add: diffEqualitiesBefore_def diffEqualities_def getProp_def Let_def)

section \<open>Properties of the request validation\<close>

lemma parseAll_accepts: "parseAll s vs = Inr ws \<Longrightarrow> v \<in> set vs \<Longrightarrow> \<exists>w. s v = Inr w"
  by (induction vs arbitrary: ws) (auto split: sum.splits)

lemma parseAll_results: "parseAll s vs = Inr ws \<Longrightarrow> w \<in> set ws \<Longrightarrow> \<exists>v \<in> set vs. s v = Inr w"
  by (induction vs arbitrary: ws) (auto split: sum.splits)

lemma parseShape_keys: "parseShape shape kvs = Inr out \<Longrightarrow> fst ` set out \<subseteq> fst ` set shape"
proof (induction shape arbitrary: out)
  case Nil
  then show ?case by simp
next
  case (Cons ks shape)
  obtain k s where ks: "ks = (k, s)" by (cases ks)
  from Cons.prems ks obtain w out' where w: "s (getProp kvs k) = Inr w"
    and o: "parseShape shape kvs = Inr out'"
    and out: "out = (if w = JUndefined \<and> map_of kvs k = None then out' else (k, w) # out')"
    by (auto split: sum.splits)
  from Cons.IH[OF o] have "fst ` set out' \<subseteq> fst ` set shape" .
  with out ks show ?case by (auto split: if_splits)
qed

lemma getProp_absent: "k \<notin> fst ` set kvs \<Longrightarrow> getProp kvs k = JUndefined"
proof -
  assume "k \<notin> fst ` set kvs"
  then have "map_of kvs k = None" by (simp add: map_of_eq_None_iff)
  then show ?thesis by (simp add: getProp_def)
qed

text \<open>Each property of a parsed object is what the key's schema makes of the submitted property.\<close>

lemma parseShape_field:
  "parseShape shape kvs = Inr out \<Longrightarrow> distinct (map fst shape) \<Longrightarrow> (k, s) \<in> set shape \<Longrightarrow>
   s (getProp kvs k) = Inr (getProp out k)"
proof (induction shape arbitrary: out)
  case Nil
  then show ?case by simp
next
  case (Cons ks shape)
  obtain k' s' where ks: "ks = (k', s')" by (cases ks)
  from Cons.prems(1) ks obtain w out' where w: "s' (getProp kvs k') = Inr w"
    and o: "parseShape shape kvs = Inr out'"
    and out: "out = (if w = JUndefined \<and> map_of kvs k' = None then out' else (k', w) # out')"
    by (auto split: sum.splits)
  from Cons.prems(2) ks have d: "distinct (map fst shape)" and nk: "k' \<notin> fst ` set shape" by auto
  from parseShape_keys[OF o] nk have absent: "k' \<notin> fst ` set out'" by auto
  show ?case
  proof (cases "(k, s) = (k', s')")
    case True
    then have "getProp out k = w"
    proof (cases "w = JUndefined \<and> map_of kvs k' = None")
      case True
      with out have "out = out'" by simp
      with absent \<open>(k, s) = (k', s')\<close> True show ?thesis by (simp add: getProp_absent)
    next
      case False
      with out have "out = (k', w) # out'" by auto
      with \<open>(k, s) = (k', s')\<close> show ?thesis by (simp add: getProp_def)
    qed
    with True w show ?thesis by simp
  next
    case False
    with Cons.prems(3) ks have mem: "(k, s) \<in> set shape" by auto
    then have "k \<noteq> k'" using nk by force
    then have "getProp out k = getProp out' k" using out by (simp add: getProp_def)
    with Cons.IH[OF o d mem] show ?thesis by simp
  qed
qed

text \<open>An object is accepted exactly when every key's schema accepts the submitted property.\<close>

lemma parseShape_accepts:
  "(\<exists>out. parseShape shape kvs = Inr out) \<longleftrightarrow> (\<forall>(k, s) \<in> set shape. \<exists>w. s (getProp kvs k) = Inr w)"
  by (induction shape) (auto split: sum.splits)

lemma getProp_Nil: "getProp [] k = JUndefined"
  by (simp add: getProp_def)

lemma getProp_Cons: "getProp ((k, v) # kvs) k' = (if k' = k then v else getProp kvs k')"
  by (simp add: getProp_def)

section \<open>Properties of the reporting-periods handler\<close>

lemma zObject_accepted:
  "zObject shape v = Inr w \<Longrightarrow> \<exists>kvs out. v = JObj kvs \<and> w = JObj out \<and> parseShape shape kvs = Inr out"
  by (auto simp: zObject_def split: jsval.splits sum.splits)

lemma zRefine_accepted: "zRefine s check msg v = Inr w \<Longrightarrow> s v = Inr w \<and> check w"
  by (auto simp: zRefine_def split: sum.splits if_splits)

lemma zCoerceDate_accepted: "zCoerceDate newDate v = Inr w \<Longrightarrow> \<exists>t. newDate v = Some t \<and> w = JDate t"
  by (auto simp: zCoerceDate_def split: option.splits)

lemma zArray_accepted:
  "zArray s v = Inr w \<Longrightarrow> \<exists>vs ws. v = JArr vs \<and> w = JArr ws \<and> parseAll s vs = Inr ws"
  by (auto simp: zArray_def split: jsval.splits sum.splits)

lemma reportingPeriodSchema_accepted:
  assumes "reportingPeriodSchema newDate p = Inr w"
  shows "\<exists>a b. newDate (optGet p ''startDate'') = Some a \<and> newDate (optGet p ''endDate'') = Some b
           \<and> a < b \<and> optGet w ''startDate'' = JDate a \<and> optGet w ''endDate'' = JDate b"
proof -
  let ?shape = "[(''startDate'', zCoerceDate newDate), (''endDate'', zCoerceDate newDate),
                 (''reportURL'', zOptional zString), (''emissions'', emissionsSchema),
                 (''economy'', economySchema)]"
  from assms have obj: "zObject ?shape p = Inr w" and chk: "startsBeforeEnd w"
    unfolding reportingPeriodSchema_def by (auto dest: zRefine_accepted)
  from zObject_accepted[OF obj] obtain kvs out
    where p: "p = JObj kvs" and w: "w = JObj out" and ps: "parseShape ?shape kvs = Inr out" by blast
  have d: "distinct (map fst ?shape)" by simp
  have "zCoerceDate newDate (getProp kvs ''startDate'') = Inr (getProp out ''startDate'')"
    by (rule parseShape_field[OF ps d]) simp
  then obtain a where a: "newDate (getProp kvs ''startDate'') = Some a" "getProp out ''startDate'' = JDate a"
    by (auto dest: zCoerceDate_accepted)
  have "zCoerceDate newDate (getProp kvs ''endDate'') = Inr (getProp out ''endDate'')"
    by (rule parseShape_field[OF ps d]) simp
  then obtain b where b: "newDate (getProp kvs ''endDate'') = Some b" "getProp out ''endDate'' = JDate b"
    by (auto dest: zCoerceDate_accepted)
  from chk w a b have "a < b" by (simp add: startsBeforeEnd_def)
  with p w a b show ?thesis by simp
qed

lemma postReportingPeriodsSchema_accepted:
  assumes "postReportingPeriodsSchema newDate reqBody = Inr parsed"
  shows "\<exists>ps ws. optGet reqBody ''reportingPeriods'' = JArr ps \<and> optGet parsed ''reportingPeriods'' = JArr ws
           \<and> parseAll (reportingPeriodSchema newDate) ps = Inr ws"
proof -
  let ?shape = "[(''reportingPeriods'', zArray (reportingPeriodSchema newDate))]"
  from assms have "zObject ?shape reqBody = Inr parsed" by (simp add: postReportingPeriodsSchema_def)
  from zObject_accepted[OF this] obtain kvs out
    where p: "reqBody = JObj kvs" and w: "parsed = JObj out" and ps: "parseShape ?shape kvs = Inr out" by blast
  have "zArray (reportingPeriodSchema newDate) (getProp kvs ''reportingPeriods'')
          = Inr (getProp out ''reportingPeriods'')"
    by (rule parseShape_field[OF ps]) simp_all
  from zArray_accepted[OF this] p w show ?thesis by simp
qed

lemma entryOk_guard: "isFieldGroupCall c \<Longrightarrow> entryOk (guard b c)"
  by (simp add: entryOk_def guard_def)

lemma callsOf_entryOk: "list_all entryOk es \<Longrightarrow> \<forall>c \<in> set (callsOf es). isFieldGroupCall c"
  by (induction es rule: callsOf.induct) (auto simp: entryOk_def)

lemma periodFieldGroups_entryOk:
  assumes "periodFieldGroups trim toUpperCase dbEmissions dbEconomy metadata emissions economy = Inr entries"
  shows "list_all entryOk entries"
proof -
  from assms obtain turnover where
    "entries =
       [guard (optGet emissions ''scope1'' \<noteq> JUndefined) (UpsertScope1 dbEmissions (optGet emissions ''scope1'') metadata),
        guard (optGet emissions ''scope2'' \<noteq> JUndefined) (UpsertScope2 dbEmissions (optGet emissions ''scope2'') metadata),
        (if truthy (optGet emissions ''scope3'') then Promise (UpsertScope3 dbEmissions (optGet emissions ''scope3'') metadata)
         else Plain (optGet emissions ''scope3'')),
        guard (optGet emissions ''statedTotalEmissions'' \<noteq> JUndefined)
          (UpsertStatedTotalEmissions dbEmissions (optGet emissions ''statedTotalEmissions'') metadata),
        guard (optGet emissions ''biogenic'' \<noteq> JUndefined) (UpsertBiogenic dbEmissions (optGet emissions ''biogenic'') metadata),
        guard (optGet emissions ''scope1And2'' \<noteq> JUndefined) (UpsertScope1And2 dbEmissions (optGet emissions ''scope1And2'') metadata),
        guard (turnover \<noteq> JUndefined) (UpsertTurnover dbEconomy turnover metadata),
        guard (optGet economy ''employees'' \<noteq> JUndefined) (UpsertEmployees dbEconomy (optGet economy ''employees'') metadata)]"
    unfolding periodFieldGroups_def Let_def by (cases "normaliseCurrency trim toUpperCase (optGet economy ''turnover'')") auto
  then show ?thesis by (simp add: entryOk_guard) (simp add: entryOk_def)
qed

lemma periodFieldGroups_calls:
  "periodFieldGroups trim toUpperCase dbEmissions dbEconomy metadata emissions economy = Inr entries \<Longrightarrow>
   \<forall>c \<in> set (callsOf entries). isFieldGroupCall c"
  by (rule callsOf_entryOk) (rule periodFieldGroups_entryOk)

text \<open>The calls of one period: none, or the reporting-period upsert followed by other calls.\<close>

lemma savePeriod_calls:
  assumes sp: "savePeriod trim toUpperCase db yearOf company metadata w = (calls, outs, res)"
  shows "calls = [] \<or>
     (\<exists>t rest. optGet w ''endDate'' = JDate t
        \<and> calls = UpsertReportingPeriod (JObj company) metadata
               (JObj [(''startDate'', optGet w ''startDate''), (''endDate'', optGet w ''endDate''),
                      (''reportURL'', optGet w ''reportURL''), (''year'', JStr (yearOf t))]) # rest
        \<and> (\<forall>x \<in> set rest. (\<exists>arg. x = UpsertEmissions arg \<or> x = UpsertEconomy arg) \<or> isFieldGroupCall x))"
proof (cases "optGet w ''endDate''")
  case (JDate t)
  define c0 where "c0 = UpsertReportingPeriod (JObj company) metadata
               (JObj [(''startDate'', optGet w ''startDate''), (''endDate'', JDate t),
                      (''reportURL'', optGet w ''reportURL''), (''year'', JStr (yearOf t))])"
  have "\<exists>rest. calls = c0 # rest
        \<and> (\<forall>x \<in> set rest. (\<exists>arg. x = UpsertEmissions arg \<or> x = UpsertEconomy arg) \<or> isFieldGroupCall x)"
  proof (cases "db c0")
    case (Rejected r)
    with sp JDate show ?thesis by (auto simp: savePeriod_def Let_def c0_def)
  next
    case (Fulfilled rp)
    show ?thesis
    proof (cases "rp = JUndefined \<or> rp = JNull")
      case True
      with sp JDate Fulfilled show ?thesis by (auto simp: savePeriod_def Let_def c0_def)
    next
      case False
      define c1 where "c1 = UpsertEmissions
                                   (JObj [(''emissionsId'', nullish (optGet rp ''emissionsId'') (JNum 0)),
                                          (''companyId'', getProp company ''wikidataId''),
                                          (''year'', JStr (yearOf t))])"
      define c2 where "c2 = UpsertEconomy
                                   (JObj [(''economyId'', nullish (optGet rp ''economyId'') (JNum 0)),
                                          (''companyId'', getProp company ''wikidataId''),
                                          (''year'', JStr (yearOf t))])"
      show ?thesis
      proof (cases "db c1")
        case (Rejected r)
        with sp JDate Fulfilled False show ?thesis
          by (auto simp: savePeriod_def Let_def c0_def c1_def)
      next
        case em: (Fulfilled dbEmissions)
        show ?thesis
        proof (cases "db c2")
          case (Rejected r)
          with sp JDate Fulfilled False em show ?thesis
            by (auto simp: savePeriod_def Let_def c0_def c1_def c2_def)
        next
          case ec: (Fulfilled dbEconomy)
          define emissions where "emissions = (if optGet w ''emissions'' = JUndefined then JObj []
                       else optGet w ''emissions'')"
          define economy where "economy = (if optGet w ''economy'' = JUndefined then JObj []
                     else optGet w ''economy'')"
          show ?thesis
          proof (cases "periodFieldGroups trim toUpperCase dbEmissions dbEconomy metadata emissions economy")
            case (Inl err)
            with sp JDate Fulfilled False em ec show ?thesis
              by (auto simp: savePeriod_def Let_def c0_def c1_def c2_def emissions_def economy_def)
          next
            case (Inr entries)
            with sp JDate Fulfilled False em ec have "calls = [c0, c1, c2] @ callsOf entries"
              by (simp add: savePeriod_def Let_def c0_def c1_def c2_def emissions_def economy_def)
            with periodFieldGroups_calls[OF Inr] show ?thesis by (auto simp: c1_def c2_def)
          qed
        qed
      qed
    qed
  qed
  with JDate show ?thesis by (auto simp: c0_def)
qed (use sp in \<open>simp_all add: savePeriod_def Let_def\<close>)

lemma savePeriod_reportingPeriod_call:
  assumes "savePeriod trim toUpperCase db yearOf company metadata w = (calls, outs, res)"
    and "UpsertReportingPeriod c m v \<in> set calls"
  shows "optGet v ''startDate'' = optGet w ''startDate'' \<and> optGet v ''endDate'' = optGet w ''endDate''"
proof -
  from savePeriod_calls[OF assms(1)] assms(2) obtain t rest where
    c: "calls = UpsertReportingPeriod (JObj company) metadata
               (JObj [(''startDate'', optGet w ''startDate''), (''endDate'', optGet w ''endDate''),
                      (''reportURL'', optGet w ''reportURL''), (''year'', JStr (yearOf t))]) # rest"
    and r: "\<forall>x \<in> set rest. (\<exists>arg. x = UpsertEmissions arg \<or> x = UpsertEconomy arg) \<or> isFieldGroupCall x"
    by auto
  from assms(2) c r have "v = JObj [(''startDate'', optGet w ''startDate''), (''endDate'', optGet w ''endDate''),
                      (''reportURL'', optGet w ''reportURL''), (''year'', JStr (yearOf t))]"
    by auto
  then show ?thesis by (simp add: getProp_def)
qed

text \<open>
  Claim C10. A POST to the reporting-periods route is refused by validation, with no call
  to the persistence layer, when some submitted reporting period does not have two valid
  dates with the start strictly before the end; and every reporting period that is
  upserted has a start date strictly before its end date.
\<close>

theorem reporting_periods_start_before_end:
  assumes run: "postReportingPeriods trim toUpperCase db newDate yearOf company metadata reqBody = (resp, runs)"
  shows "(\<forall>ps p. optGet reqBody ''reportingPeriods'' = JArr ps \<and> p \<in> set ps
            \<and> \<not> (\<exists>a b. newDate (optGet p ''startDate'') = Some a
                       \<and> newDate (optGet p ''endDate'') = Some b \<and> a < b)
            \<longrightarrow> (\<exists>e. resp = ValidationFailed e) \<and> runs = [])
       \<and> (\<forall>calls outs res c m v. (calls, outs, res) \<in> set runs \<and> UpsertReportingPeriod c m v \<in> set calls
            \<longrightarrow> (\<exists>a b. optGet v ''startDate'' = JDate a \<and> optGet v ''endDate'' = JDate b \<and> a < b))"
proof (cases "postReportingPeriodsSchema newDate reqBody")
  case (Inl e)
  with run have "resp = ValidationFailed e" "runs = []" by (auto simp: postReportingPeriods_def)
  then show ?thesis by simp
next
  case (Inr parsed)
  from postReportingPeriodsSchema_accepted[OF Inr] obtain ps ws
    where ps: "optGet reqBody ''reportingPeriods'' = JArr ps"
      and ws: "optGet parsed ''reportingPeriods'' = JArr ws"
      and pa: "parseAll (reportingPeriodSchema newDate) ps = Inr ws" by blast
  from run Inr ws have runs: "runs = map (savePeriod trim toUpperCase db yearOf company metadata) ws"
    by (auto simp: postReportingPeriods_def)
  have first: "\<forall>p \<in> set ps. \<exists>a b. newDate (optGet p ''startDate'') = Some a
                       \<and> newDate (optGet p ''endDate'') = Some b \<and> a < b"
  proof
    fix p assume "p \<in> set ps"
    from parseAll_accepts[OF pa this] obtain w where "reportingPeriodSchema newDate p = Inr w" by blast
    from reportingPeriodSchema_accepted[OF this] show "\<exists>a b. newDate (optGet p ''startDate'') = Some a
                       \<and> newDate (optGet p ''endDate'') = Some b \<and> a < b" by blast
  qed
  have second: "\<exists>a b. optGet v ''startDate'' = JDate a \<and> optGet v ''endDate'' = JDate b \<and> a < b"
    if "(calls, outs, res) \<in> set runs" "UpsertReportingPeriod c m v \<in> set calls" for calls outs res c m v
  proof -
    from that(1) runs obtain w where w: "w \<in> set ws"
      and sp: "savePeriod trim toUpperCase db yearOf company metadata w = (calls, outs, res)" by auto
    from parseAll_results[OF pa w] obtain p where "reportingPeriodSchema newDate p = Inr w" by blast
    from reportingPeriodSchema_accepted[OF this] obtain a b
      where "optGet w ''startDate'' = JDate a" "optGet w ''endDate'' = JDate b" "a < b" by blast
    with savePeriod_reportingPeriod_call[OF sp that(2)] show ?thesis by simp
  qed
  from first ps second show ?thesis by auto
qed

theorem reporting_periods_start_before_end_witness:
  "postReportingPeriods asciiTrim asciiUpper (\<lambda>c. Rejected JNull) (\<lambda>v. case v of JNum n \<Rightarrow> Some n | _ \<Rightarrow> None)
      (\<lambda>t. ''2023'') [(''wikidataId'', JStr ''Q1'')] JNull
      (JObj [(''reportingPeriods'', JArr [JObj [(''startDate'', JNum 20), (''endDate'', JNum 10)]])])
    = (ValidationFailed (ZodError ''startDate must be earlier than endDate''), [])
   \<and> postReportingPeriods asciiTrim asciiUpper (\<lambda>c. Rejected JNull) (\<lambda>v. case v of JNum n \<Rightarrow> Some n | _ \<Rightarrow> None)
      (\<lambda>t. ''2023'') [(''wikidataId'', JStr ''Q1'')] JNull
      (JObj [(''reportingPeriods'', JArr [JObj [(''startDate'', JNum 10), (''endDate'', JNum 20)]])])
    = (okResponse,
       [([UpsertReportingPeriod (JObj [(''wikidataId'', JStr ''Q1'')]) JNull
            (JObj [(''startDate'', JDate 10), (''endDate'', JDate 20), (''reportURL'', JUndefined),
                   (''year'', JStr ''2023'')])],
         [], Rejected JNull)])
   \<and> (\<exists>a b. optGet (JObj [(''startDate'', JDate 10), (''endDate'', JDate 20), (''reportURL'', JUndefined),
                   (''year'', JStr ''2023'')]) ''startDate'' = JDate a
           \<and> optGet (JObj [(''startDate'', JDate 10), (''endDate'', JDate 20), (''reportURL'', JUndefined),
                   (''year'', JStr ''2023'')]) ''endDate'' = JDate b \<and> a < b)"
proof -
  let ?db = "\<lambda>c :: dbCall. Rejected JNull"
  let ?nd = "\<lambda>v. case v of JNum n \<Rightarrow> Some n | _ \<Rightarrow> None"
  let ?y = "\<lambda>t :: int. ''2023''"
  let ?v = "JObj [(''startDate'', JDate 10), (''endDate'', JDate 20), (''reportURL'', JUndefined),
                   (''year'', JStr ''2023'')]"
  let ?c0 = "UpsertReportingPeriod (JObj [(''wikidataId'', JStr ''Q1'')]) JNull ?v"
  have em: "emissionsSchema JUndefined = Inr JUndefined" by (simp add: emissionsSchema_def zOptional_def)
  have ec: "economySchema JUndefined = Inr JUndefined" by (simp add: economySchema_def zOptional_def)
  have bad: "postReportingPeriods asciiTrim asciiUpper ?db ?nd ?y [(''wikidataId'', JStr ''Q1'')] JNull
      (JObj [(''reportingPeriods'', JArr [JObj [(''startDate'', JNum 20), (''endDate'', JNum 10)]])])
    = (ValidationFailed (ZodError ''startDate must be earlier than endDate''), [])"
    by (simp add: postReportingPeriods_def postReportingPeriodsSchema_def reportingPeriodSchema_def
        zObject_def zArray_def zRefine_def zCoerceDate_def zOptional_def em ec startsBeforeEnd_def
        getProp_def)
  have good: "postReportingPeriods asciiTrim asciiUpper ?db ?nd ?y [(''wikidataId'', JStr ''Q1'')] JNull
      (JObj [(''reportingPeriods'', JArr [JObj [(''startDate'', JNum 10), (''endDate'', JNum 20)]])])
    = (okResponse, [([?c0], [], Rejected JNull)])"
    by (simp add: postReportingPeriods_def postReportingPeriodsSchema_def reportingPeriodSchema_def
        zObject_def zArray_def zRefine_def zCoerceDate_def zOptional_def em ec startsBeforeEnd_def
        getProp_def savePeriod_def Let_def)
  from reporting_periods_start_before_end[OF good]
  have "\<exists>a b. optGet ?v ''startDate'' = JDate a \<and> optGet ?v ''endDate'' = JDate b \<and> a < b"
    by auto
  with bad good show ?thesis by blast
qed

lemma asciiTrim_sek: "asciiTrim '' sek '' = ''sek''"
  by (simp add: asciiTrim_def asciiSpace_def)

lemma asciiUpper_sek: "asciiUpper ''sek'' = ''SEK''"
  by (simp add: asciiUpper_def)

lemma callsOf_set: "set (callsOf es) = {c. Promise c \<in> set es}"
  by (induction es rule: callsOf.induct) auto

lemma Promise_guard: "Promise c = guard b c' \<longleftrightarrow> b \<and> c = c'"
  by (auto simp: guard_def)



lemma periodFieldGroups_entries:
  assumes "periodFieldGroups trim toUpperCase dbEmissions dbEconomy metadata emissions economy = Inr entries"
  shows "\<exists>turnover. normaliseCurrency trim toUpperCase (optGet economy ''turnover'') = Inr turnover \<and>
    entries =
       [guard (optGet emissions ''scope1'' \<noteq> JUndefined) (UpsertScope1 dbEmissions (optGet emissions ''scope1'') metadata),
        guard (optGet emissions ''scope2'' \<noteq> JUndefined) (UpsertScope2 dbEmissions (optGet emissions ''scope2'') metadata),
        (if truthy (optGet emissions ''scope3'') then Promise (UpsertScope3 dbEmissions (optGet emissions ''scope3'') metadata)
         else Plain (optGet emissions ''scope3'')),
        guard (optGet emissions ''statedTotalEmissions'' \<noteq> JUndefined)
          (UpsertStatedTotalEmissions dbEmissions (optGet emissions ''statedTotalEmissions'') metadata),
        guard (optGet emissions ''biogenic'' \<noteq> JUndefined) (UpsertBiogenic dbEmissions (optGet emissions ''biogenic'') metadata),
        guard (optGet emissions ''scope1And2'' \<noteq> JUndefined) (UpsertScope1And2 dbEmissions (optGet emissions ''scope1And2'') metadata),
        guard (turnover \<noteq> JUndefined) (UpsertTurnover dbEconomy turnover metadata),
        guard (optGet economy ''employees'' \<noteq> JUndefined) (UpsertEmployees dbEconomy (optGet economy ''employees'') metadata)]"
  using assms unfolding periodFieldGroups_def Let_def
  by (cases "normaliseCurrency trim toUpperCase (optGet economy ''turnover'')") auto

lemma periodFieldGroups_ok:
  assumes "normaliseCurrency trim toUpperCase (optGet economy ''turnover'') = Inr turnover"
  shows "periodFieldGroups trim toUpperCase dbEmissions dbEconomy metadata emissions economy = Inr
       [guard (optGet emissions ''scope1'' \<noteq> JUndefined) (UpsertScope1 dbEmissions (optGet emissions ''scope1'') metadata),
        guard (optGet emissions ''scope2'' \<noteq> JUndefined) (UpsertScope2 dbEmissions (optGet emissions ''scope2'') metadata),
        (if truthy (optGet emissions ''scope3'') then Promise (UpsertScope3 dbEmissions (optGet emissions ''scope3'') metadata)
         else Plain (optGet emissions ''scope3'')),
        guard (optGet emissions ''statedTotalEmissions'' \<noteq> JUndefined)
          (UpsertStatedTotalEmissions dbEmissions (optGet emissions ''statedTotalEmissions'') metadata),
        guard (optGet emissions ''biogenic'' \<noteq> JUndefined) (UpsertBiogenic dbEmissions (optGet emissions ''biogenic'') metadata),
        guard (optGet emissions ''scope1And2'' \<noteq> JUndefined) (UpsertScope1And2 dbEmissions (optGet emissions ''scope1And2'') metadata),
        guard (turnover \<noteq> JUndefined) (UpsertTurnover dbEconomy turnover metadata),
        guard (optGet economy ''employees'' \<noteq> JUndefined) (UpsertEmployees dbEconomy (optGet economy ''employees'') metadata)]"
  using assms by (simp add: periodFieldGroups_def Let_def)


text \<open>The reporting-periods handler on a period whose turnover has the currency " sek ".\<close>

lemma reporting_period_sek_example:
  "postReportingPeriods asciiTrim asciiUpper (\<lambda>c. Fulfilled (JObj [])) (\<lambda>v. case v of JNum n \<Rightarrow> Some n | _ \<Rightarrow> None)
      (\<lambda>t. ''2023'') [(''wikidataId'', JStr ''Q1'')] JNull
      (JObj [(''reportingPeriods'',
         JArr [JObj [(''startDate'', JNum 10), (''endDate'', JNum 20),
                     (''economy'', JObj [(''turnover'',
                         JObj [(''value'', JNum 100), (''currency'', JStr '' sek '')])])]])])
    = (okResponse,
       [([UpsertReportingPeriod (JObj [(''wikidataId'', JStr ''Q1'')]) JNull
            (JObj [(''startDate'', JDate 10), (''endDate'', JDate 20), (''reportURL'', JUndefined),
                   (''year'', JStr ''2023'')]),
          UpsertEmissions (JObj [(''emissionsId'', JNum 0), (''companyId'', JStr ''Q1''), (''year'', JStr ''2023'')]),
          UpsertEconomy (JObj [(''economyId'', JNum 0), (''companyId'', JStr ''Q1''), (''year'', JStr ''2023'')]),
          UpsertTurnover (JObj []) (JObj [(''value'', JNum 100), (''currency'', JStr ''SEK'')]) JNull],
         [Fulfilled (JBool False), Fulfilled (JBool False), Fulfilled JUndefined, Fulfilled (JBool False),
          Fulfilled (JBool False), Fulfilled (JBool False), Fulfilled (JObj []), Fulfilled (JBool False)],
         Fulfilled JUndefined)])"
proof -
  let ?nd = "\<lambda>v. case v of JNum n \<Rightarrow> Some n | _ \<Rightarrow> None"
  let ?ec = "JObj [(''turnover'', JObj [(''value'', JNum 100), (''currency'', JStr '' sek '')])]"
  have ec: "economySchema ?ec = Inr ?ec"
    by (simp add: economySchema_def zObject_def zOptional_def zNullable_def zNumber_def zString_def
        getProp_Cons getProp_Nil)
  have emu: "emissionsSchema JUndefined = Inr JUndefined" by (simp add: emissionsSchema_def zOptional_def)
  have parse: "postReportingPeriodsSchema ?nd
      (JObj [(''reportingPeriods'',
         JArr [JObj [(''startDate'', JNum 10), (''endDate'', JNum 20), (''economy'', ?ec)]])])
     = Inr (JObj [(''reportingPeriods'',
         JArr [JObj [(''startDate'', JDate 10), (''endDate'', JDate 20), (''economy'', ?ec)]])])"
    by (simp add: postReportingPeriodsSchema_def reportingPeriodSchema_def zObject_def zArray_def
        zRefine_def zCoerceDate_def zOptional_def ec emu startsBeforeEnd_def
        getProp_Cons getProp_Nil)
  show ?thesis
    by (simp add: postReportingPeriods_def parse savePeriod_def periodFieldGroups_def
        normaliseCurrency_def guard_def nullish_def allSettled_def getProp_Cons getProp_Nil
        setProp_def asciiTrim_sek asciiUpper_sek Let_def)
qed


lemma savePeriod_fulfilled:
  "savePeriod trim toUpperCase db yearOf company metadata p = (calls, outs, Fulfilled v) \<longleftrightarrow>
   (\<exists>t rp dbEm dbEc entries.
      optGet p ''endDate'' = JDate t
      \<and> db (UpsertReportingPeriod (JObj company) metadata
               (JObj [(''startDate'', optGet p ''startDate''), (''endDate'', JDate t),
                      (''reportURL'', optGet p ''reportURL''), (''year'', JStr (yearOf t))]))
          = Fulfilled rp
      \<and> rp \<noteq> JUndefined \<and> rp \<noteq> JNull
      \<and> db (UpsertEmissions
               (JObj [(''emissionsId'', nullish (optGet rp ''emissionsId'') (JNum 0)),
                      (''companyId'', getProp company ''wikidataId''),
                      (''year'', JStr (yearOf t))])) = Fulfilled dbEm
      \<and> db (UpsertEconomy
               (JObj [(''economyId'', nullish (optGet rp ''economyId'') (JNum 0)),
                      (''companyId'', getProp company ''wikidataId''),
                      (''year'', JStr (yearOf t))])) = Fulfilled dbEc
      \<and> periodFieldGroups trim toUpperCase dbEm dbEc metadata
            (if optGet p ''emissions'' = JUndefined then JObj [] else optGet p ''emissions'')
            (if optGet p ''economy'' = JUndefined then JObj [] else optGet p ''economy'') = Inr entries
      \<and> calls = [UpsertReportingPeriod (JObj company) metadata
               (JObj [(''startDate'', optGet p ''startDate''), (''endDate'', JDate t),
                      (''reportURL'', optGet p ''reportURL''), (''year'', JStr (yearOf t))]),
                 UpsertEmissions
               (JObj [(''emissionsId'', nullish (optGet rp ''emissionsId'') (JNum 0)),
                      (''companyId'', getProp company ''wikidataId''),
                      (''year'', JStr (yearOf t))]),
                 UpsertEconomy
               (JObj [(''economyId'', nullish (optGet rp ''economyId'') (JNum 0)),
                      (''companyId'', getProp company ''wikidataId''),
                      (''year'', JStr (yearOf t))])] @ callsOf entries
      \<and> outs = allSettled db entries \<and> v = JUndefined)"
  (is "?L \<longleftrightarrow> ?R")
proof
  assume ?R
  then show ?L by (auto simp: savePeriod_def Let_def)
next
  assume sp: ?L
  show ?R
  proof (cases "optGet p ''endDate''")
    case (JDate t)
    define c0 where "c0 = UpsertReportingPeriod (JObj company) metadata
               (JObj [(''startDate'', optGet p ''startDate''), (''endDate'', JDate t),
                      (''reportURL'', optGet p ''reportURL''), (''year'', JStr (yearOf t))])"
    show ?thesis
    proof (cases "db c0")
      case (Rejected r)
      with sp JDate show ?thesis by (simp add: savePeriod_def Let_def c0_def)
    next
      case (Fulfilled rp)
      show ?thesis
      proof (cases "rp = JUndefined \<or> rp = JNull")
        case True
        with sp JDate Fulfilled show ?thesis by (auto simp: savePeriod_def Let_def c0_def)
      next
        case False
        define c1 where "c1 = UpsertEmissions
               (JObj [(''emissionsId'', nullish (optGet rp ''emissionsId'') (JNum 0)),
                      (''companyId'', getProp company ''wikidataId''),
                      (''year'', JStr (yearOf t))])"
        define c2 where "c2 = UpsertEconomy
               (JObj [(''economyId'', nullish (optGet rp ''economyId'') (JNum 0)),
                      (''companyId'', getProp company ''wikidataId''),
                      (''year'', JStr (yearOf t))])"
        show ?thesis
        proof (cases "db c1")
          case (Rejected r)
          with sp JDate Fulfilled False show ?thesis
            by (simp add: savePeriod_def Let_def c0_def c1_def)
        next
          case em: (Fulfilled dbEm)
          show ?thesis
          proof (cases "db c2")
            case (Rejected r)
            with sp JDate Fulfilled False em show ?thesis
              by (simp add: savePeriod_def Let_def c0_def c1_def c2_def)
          next
            case ec: (Fulfilled dbEc)
            define emissions where "emissions = (if optGet p ''emissions'' = JUndefined then JObj []
                       else optGet p ''emissions'')"
            define economy where "economy = (if optGet p ''economy'' = JUndefined then JObj []
                     else optGet p ''economy'')"
            show ?thesis
            proof (cases "periodFieldGroups trim toUpperCase dbEm dbEc metadata emissions economy")
              case (Inl err)
              with sp JDate Fulfilled False em ec show ?thesis
                by (simp add: savePeriod_def Let_def c0_def c1_def c2_def emissions_def economy_def)
            next
              case (Inr entries)
              with sp JDate Fulfilled False em ec
              have "calls = [c0, c1, c2] @ callsOf entries" "outs = allSettled db entries" "v = JUndefined"
                by (simp_all add: savePeriod_def Let_def c0_def c1_def c2_def emissions_def economy_def)
              with JDate Fulfilled False em ec Inr show ?thesis
                unfolding c0_def c1_def c2_def emissions_def economy_def by blast
            qed
          qed
        qed
      qed
    qed
  qed (use sp in \<open>simp_all add: savePeriod_def Let_def\<close>)
qed

lemma callsOf_guard: "callsOf (guard b c # es) = (if b then [c] else []) @ callsOf es"
  by (simp add: guard_def)

lemma callsOf_if:
  "callsOf ((if b then Promise c else Plain x) # es) = (if b then [c] else []) @ callsOf es"
  by simp

lemma allSettled_guard:
  "allSettled db (guard b c # es) = (if b then db c else Fulfilled (JBool False)) # allSettled db es"
  by (simp add: allSettled_def guard_def)

lemma allSettled_if:
  "allSettled db ((if b then Promise c else Plain x) # es)
     = (if b then db c else Fulfilled x) # allSettled db es"
  by (simp add: allSettled_def)

lemma allSettled_Nil: "allSettled db [] = []"
  by (simp add: allSettled_def)

text \<open>What the array of the reporting period's inner \<open>Promise.allSettled\<close> calls and gives.\<close>

lemma periodFieldGroups_run:
  assumes "periodFieldGroups trim toUpperCase dbEmissions dbEconomy metadata emissions economy = Inr entries"
  shows "\<exists>turnover. normaliseCurrency trim toUpperCase (optGet economy ''turnover'') = Inr turnover
    \<and> callsOf entries =
         (if optGet emissions ''scope1'' \<noteq> JUndefined
          then [UpsertScope1 dbEmissions (optGet emissions ''scope1'') metadata] else [])
       @ (if optGet emissions ''scope2'' \<noteq> JUndefined
          then [UpsertScope2 dbEmissions (optGet emissions ''scope2'') metadata] else [])
       @ (if truthy (optGet emissions ''scope3'')
          then [UpsertScope3 dbEmissions (optGet emissions ''scope3'') metadata] else [])
       @ (if optGet emissions ''statedTotalEmissions'' \<noteq> JUndefined
          then [UpsertStatedTotalEmissions dbEmissions (optGet emissions ''statedTotalEmissions'') metadata]
          else [])
       @ (if optGet emissions ''biogenic'' \<noteq> JUndefined
          then [UpsertBiogenic dbEmissions (optGet emissions ''biogenic'') metadata] else [])
       @ (if optGet emissions ''scope1And2'' \<noteq> JUndefined
          then [UpsertScope1And2 dbEmissions (optGet emissions ''scope1And2'') metadata] else [])
       @ (if turnover \<noteq> JUndefined then [UpsertTurnover dbEconomy turnover metadata] else [])
       @ (if optGet economy ''employees'' \<noteq> JUndefined
          then [UpsertEmployees dbEconomy (optGet economy ''employees'') metadata] else [])
    \<and> (\<forall>db. allSettled db entries =
         [if optGet emissions ''scope1'' \<noteq> JUndefined
          then db (UpsertScope1 dbEmissions (optGet emissions ''scope1'') metadata)
          else Fulfilled (JBool False),
          if optGet emissions ''scope2'' \<noteq> JUndefined
          then db (UpsertScope2 dbEmissions (optGet emissions ''scope2'') metadata)
          else Fulfilled (JBool False),
          if truthy (optGet emissions ''scope3'')
          then db (UpsertScope3 dbEmissions (optGet emissions ''scope3'') metadata)
          else Fulfilled (optGet emissions ''scope3''),
          if optGet emissions ''statedTotalEmissions'' \<noteq> JUndefined
          then db (UpsertStatedTotalEmissions dbEmissions (optGet emissions ''statedTotalEmissions'') metadata)
          else Fulfilled (JBool False),
          if optGet emissions ''biogenic'' \<noteq> JUndefined
          then db (UpsertBiogenic dbEmissions (optGet emissions ''biogenic'') metadata)
          else Fulfilled (JBool False),
          if optGet emissions ''scope1And2'' \<noteq> JUndefined
          then db (UpsertScope1And2 dbEmissions (optGet emissions ''scope1And2'') metadata)
          else Fulfilled (JBool False),
          if turnover \<noteq> JUndefined then db (UpsertTurnover dbEconomy turnover metadata)
          else Fulfilled (JBool False),
          if optGet economy ''employees'' \<noteq> JUndefined
          then db (UpsertEmployees dbEconomy (optGet economy ''employees'') metadata)
          else Fulfilled (JBool False)])"
proof -
  from periodFieldGroups_entries[OF assms] obtain turnover
    where n: "normaliseCurrency trim toUpperCase (optGet economy ''turnover'') = Inr turnover"
      and e: "entries =
       [guard (optGet emissions ''scope1'' \<noteq> JUndefined) (UpsertScope1 dbEmissions (optGet emissions ''scope1'') metadata),
        guard (optGet emissions ''scope2'' \<noteq> JUndefined) (UpsertScope2 dbEmissions (optGet emissions ''scope2'') metadata),
        (if truthy (optGet emissions ''scope3'') then Promise (UpsertScope3 dbEmissions (optGet emissions ''scope3'') metadata)
         else Plain (optGet emissions ''scope3'')),
        guard (optGet emissions ''statedTotalEmissions'' \<noteq> JUndefined)
          (UpsertStatedTotalEmissions dbEmissions (optGet emissions ''statedTotalEmissions'') metadata),
        guard (optGet emissions ''biogenic'' \<noteq> JUndefined) (UpsertBiogenic dbEmissions (optGet emissions ''biogenic'') metadata),
        guard (optGet emissions ''scope1And2'' \<noteq> JUndefined) (UpsertScope1And2 dbEmissions (optGet emissions ''scope1And2'') metadata),
        guard (turnover \<noteq> JUndefined) (UpsertTurnover dbEconomy turnover metadata),
        guard (optGet economy ''employees'' \<noteq> JUndefined) (UpsertEmployees dbEconomy (optGet economy ''employees'') metadata)]"
    by blast
  show ?thesis
    apply (rule exI[where x = turnover])
    apply (rule conjI, rule n)
    apply (rule conjI)
     apply (simp only: e callsOf_guard callsOf_if callsOf.simps append_Nil2)
    apply (simp only: e allSettled_guard allSettled_if allSettled_Nil)
    apply (rule allI, rule refl)
    done
qed

text \<open>What the array of the emissions handler's \<open>Promise.allSettled\<close> calls and gives.\<close>

lemma emissionsFieldGroups_run:
  "callsOf (emissionsFieldGroups dbEmissions metadata emissions) =
         (if optGet emissions ''scope1'' \<noteq> JUndefined
          then [UpsertScope1 dbEmissions (optGet emissions ''scope1'') metadata] else [])
       @ (if optGet emissions ''scope2'' \<noteq> JUndefined
          then [UpsertScope2 dbEmissions (optGet emissions ''scope2'') metadata] else [])
       @ (if truthy (optGet emissions ''scope3'')
          then [UpsertScope3 dbEmissions (optGet emissions ''scope3'') metadata] else [])
       @ (if optGet emissions ''scope1And2'' \<noteq> JUndefined
          then [UpsertScope1And2 dbEmissions (optGet emissions ''scope1And2'') metadata] else [])
       @ (if optGet emissions ''statedTotalEmissions'' \<noteq> JUndefined
          then [UpsertStatedTotalEmissions dbEmissions (optGet emissions ''statedTotalEmissions'') metadata]
          else [])
       @ (if optGet emissions ''biogenic'' \<noteq> JUndefined
          then [UpsertBiogenic dbEmissions (optGet emissions ''biogenic'') metadata] else [])"
  "allSettled db (emissionsFieldGroups dbEmissions metadata emissions) =
         [if optGet emissions ''scope1'' \<noteq> JUndefined
          then db (UpsertScope1 dbEmissions (optGet emissions ''scope1'') metadata)
          else Fulfilled (JBool False),
          if optGet emissions ''scope2'' \<noteq> JUndefined
          then db (UpsertScope2 dbEmissions (optGet emissions ''scope2'') metadata)
          else Fulfilled (JBool False),
          if truthy (optGet emissions ''scope3'')
          then db (UpsertScope3 dbEmissions (optGet emissions ''scope3'') metadata)
          else Fulfilled (optGet emissions ''scope3''),
          if optGet emissions ''scope1And2'' \<noteq> JUndefined
          then db (UpsertScope1And2 dbEmissions (optGet emissions ''scope1And2'') metadata)
          else Fulfilled (JBool False),
          if optGet emissions ''statedTotalEmissions'' \<noteq> JUndefined
          then db (UpsertStatedTotalEmissions dbEmissions (optGet emissions ''statedTotalEmissions'') metadata)
          else Fulfilled (JBool False),
          if optGet emissions ''biogenic'' \<noteq> JUndefined
          then db (UpsertBiogenic dbEmissions (optGet emissions ''biogenic'') metadata)
          else Fulfilled (JBool False)]"
  unfolding emissionsFieldGroups_def Let_def
  by (simp_all only: callsOf_guard callsOf_if callsOf.simps append_Nil2
        allSettled_guard allSettled_if allSettled_Nil)

text \<open>
  Claim C6. A reporting period's save is fulfilled exactly when the period's own three
  upserts are fulfilled and the currency normalisation does not throw, whatever the
  field-group upserts answer. Then the calls made after those three are the upserts
  of the submitted groups (scope1, scope2, scope3, statedTotalEmissions, biogenic,
  scope1And2, turnover, employees: submitted means not \<open>undefined\<close>, for scope3 truthy), in
  this order, each made whether or not another one is rejected, and the value of
  \<open>Promise.allSettled\<close> has eight outcomes, each the answer of its own group's upsert
  (fulfilled or rejected), or fulfilled with the plain value where the group was not
  submitted. With any other answers of the field-group upserts the same calls are made
  and the period's save is fulfilled as before. The emissions handler, on a body that
  validation accepts, answers \<open>{ ok: true }\<close> whatever the upserts answer, calls the
  upserts of the submitted groups in the order scope1, scope2, scope3, scope1And2,
  statedTotalEmissions, biogenic, and its \<open>Promise.allSettled\<close> has six outcomes, each the
  answer of its own group's upsert.
\<close>

theorem field_group_upserts_settle_independently:
  "(savePeriod trim toUpperCase db yearOf company metadata p = (calls, outs, Fulfilled v) \<longleftrightarrow>
     (\<exists>t rp dbEmissions dbEconomy turnover.
        let emissions = (if optGet p ''emissions'' = JUndefined then JObj [] else optGet p ''emissions'');
            economy = (if optGet p ''economy'' = JUndefined then JObj [] else optGet p ''economy'');
            scope1 = optGet emissions ''scope1'';
            scope2 = optGet emissions ''scope2'';
            scope3 = optGet emissions ''scope3'';
            statedTotalEmissions = optGet emissions ''statedTotalEmissions'';
            biogenic = optGet emissions ''biogenic'';
            scope1And2 = optGet emissions ''scope1And2'';
            employees = optGet economy ''employees'';
            c0 = UpsertReportingPeriod (JObj company) metadata
                   (JObj [(''startDate'', optGet p ''startDate''), (''endDate'', JDate t),
                          (''reportURL'', optGet p ''reportURL''), (''year'', JStr (yearOf t))]);
            c1 = UpsertEmissions
                   (JObj [(''emissionsId'', nullish (optGet rp ''emissionsId'') (JNum 0)),
                          (''companyId'', getProp company ''wikidataId''),
                          (''year'', JStr (yearOf t))]);
            c2 = UpsertEconomy
                   (JObj [(''economyId'', nullish (optGet rp ''economyId'') (JNum 0)),
                          (''companyId'', getProp company ''wikidataId''),
                          (''year'', JStr (yearOf t))])
        in optGet p ''endDate'' = JDate t
           \<and> db c0 = Fulfilled rp \<and> rp \<noteq> JUndefined \<and> rp \<noteq> JNull
           \<and> db c1 = Fulfilled dbEmissions \<and> db c2 = Fulfilled dbEconomy
           \<and> normaliseCurrency trim toUpperCase (optGet economy ''turnover'') = Inr turnover
           \<and> calls = [c0, c1, c2]
               @ (if scope1 \<noteq> JUndefined then [UpsertScope1 dbEmissions scope1 metadata] else [])
               @ (if scope2 \<noteq> JUndefined then [UpsertScope2 dbEmissions scope2 metadata] else [])
               @ (if truthy scope3 then [UpsertScope3 dbEmissions scope3 metadata] else [])
               @ (if statedTotalEmissions \<noteq> JUndefined
                  then [UpsertStatedTotalEmissions dbEmissions statedTotalEmissions metadata] else [])
               @ (if biogenic \<noteq> JUndefined then [UpsertBiogenic dbEmissions biogenic metadata] else [])
               @ (if scope1And2 \<noteq> JUndefined then [UpsertScope1And2 dbEmissions scope1And2 metadata] else [])
               @ (if turnover \<noteq> JUndefined then [UpsertTurnover dbEconomy turnover metadata] else [])
               @ (if employees \<noteq> JUndefined then [UpsertEmployees dbEconomy employees metadata] else [])
           \<and> outs =
               [if scope1 \<noteq> JUndefined then db (UpsertScope1 dbEmissions scope1 metadata)
                else Fulfilled (JBool False),
                if scope2 \<noteq> JUndefined then db (UpsertScope2 dbEmissions scope2 metadata)
                else Fulfilled (JBool False),
                if truthy scope3 then db (UpsertScope3 dbEmissions scope3 metadata)
                else Fulfilled scope3,
                if statedTotalEmissions \<noteq> JUndefined
                then db (UpsertStatedTotalEmissions dbEmissions statedTotalEmissions metadata)
                else Fulfilled (JBool False),
                if biogenic \<noteq> JUndefined then db (UpsertBiogenic dbEmissions biogenic metadata)
                else Fulfilled (JBool False),
                if scope1And2 \<noteq> JUndefined then db (UpsertScope1And2 dbEmissions scope1And2 metadata)
                else Fulfilled (JBool False),
                if turnover \<noteq> JUndefined then db (UpsertTurnover dbEconomy turnover metadata)
                else Fulfilled (JBool False),
                if employees \<noteq> JUndefined then db (UpsertEmployees dbEconomy employees metadata)
                else Fulfilled (JBool False)]
           \<and> v = JUndefined))
   \<and> (savePeriod trim toUpperCase db yearOf company metadata p = (calls, outs, Fulfilled v) \<longrightarrow>
        (\<forall>db'. (\<forall>c. \<not> isFieldGroupCall c \<longrightarrow> db' c = db c) \<longrightarrow>
           (\<exists>outs'. savePeriod trim toUpperCase db' yearOf company metadata p
                      = (calls, outs', Fulfilled v))))
   \<and> (postEmissions db localsEmissions metadata reqBody = (okResponse, calls', outs') \<longleftrightarrow>
       (\<exists>parsed.
          let emissions = (if optGet parsed ''emissions'' = JUndefined then JObj []
                           else optGet parsed ''emissions'');
              scope1 = optGet emissions ''scope1'';
              scope2 = optGet emissions ''scope2'';
              scope3 = optGet emissions ''scope3'';
              scope1And2 = optGet emissions ''scope1And2'';
              statedTotalEmissions = optGet emissions ''statedTotalEmissions'';
              biogenic = optGet emissions ''biogenic''
          in postEmissionsBodySchema reqBody = Inr parsed
             \<and> calls' =
                 (if scope1 \<noteq> JUndefined then [UpsertScope1 localsEmissions scope1 metadata] else [])
                 @ (if scope2 \<noteq> JUndefined then [UpsertScope2 localsEmissions scope2 metadata] else [])
                 @ (if truthy scope3 then [UpsertScope3 localsEmissions scope3 metadata] else [])
                 @ (if scope1And2 \<noteq> JUndefined then [UpsertScope1And2 localsEmissions scope1And2 metadata]
                    else [])
                 @ (if statedTotalEmissions \<noteq> JUndefined
                    then [UpsertStatedTotalEmissions localsEmissions statedTotalEmissions metadata] else [])
                 @ (if biogenic \<noteq> JUndefined then [UpsertBiogenic localsEmissions biogenic metadata] else [])
             \<and> outs' =
                 [if scope1 \<noteq> JUndefined then db (UpsertScope1 localsEmissions scope1 metadata)
                  else Fulfilled (JBool False),
                  if scope2 \<noteq> JUndefined then db (UpsertScope2 localsEmissions scope2 metadata)
                  else Fulfilled (JBool False),
                  if truthy scope3 then db (UpsertScope3 localsEmissions scope3 metadata)
                  else Fulfilled scope3,
                  if scope1And2 \<noteq> JUndefined then db (UpsertScope1And2 localsEmissions scope1And2 metadata)
                  else Fulfilled (JBool False),
                  if statedTotalEmissions \<noteq> JUndefined
                  then db (UpsertStatedTotalEmissions localsEmissions statedTotalEmissions metadata)
                  else Fulfilled (JBool False),
                  if biogenic \<noteq> JUndefined then db (UpsertBiogenic localsEmissions biogenic metadata)
                  else Fulfilled (JBool False)]))"
proof (intro conjI)
  define emissions where
    "emissions = (if optGet p ''emissions'' = JUndefined then JObj [] else optGet p ''emissions'')"
  define economy where
    "economy = (if optGet p ''economy'' = JUndefined then JObj [] else optGet p ''economy'')"
  have left: "savePeriod trim toUpperCase db yearOf company metadata p = (calls, outs, Fulfilled v) \<longleftrightarrow>
     (\<exists>t rp dbEm dbEc turnover.
        optGet p ''endDate'' = JDate t
      \<and> db (UpsertReportingPeriod (JObj company) metadata
               (JObj [(''startDate'', optGet p ''startDate''), (''endDate'', JDate t),
                      (''reportURL'', optGet p ''reportURL''), (''year'', JStr (yearOf t))]))
          = Fulfilled rp
      \<and> rp \<noteq> JUndefined \<and> rp \<noteq> JNull
      \<and> db (UpsertEmissions
               (JObj [(''emissionsId'', nullish (optGet rp ''emissionsId'') (JNum 0)),
                      (''companyId'', getProp company ''wikidataId''),
                      (''year'', JStr (yearOf t))])) = Fulfilled dbEm
      \<and> db (UpsertEconomy
               (JObj [(''economyId'', nullish (optGet rp ''economyId'') (JNum 0)),
                      (''companyId'', getProp company ''wikidataId''),
                      (''year'', JStr (yearOf t))])) = Fulfilled dbEc
      \<and> normaliseCurrency trim toUpperCase (optGet economy ''turnover'') = Inr turnover
      \<and> calls = [UpsertReportingPeriod (JObj company) metadata
               (JObj [(''startDate'', optGet p ''startDate''), (''endDate'', JDate t),
                      (''reportURL'', optGet p ''reportURL''), (''year'', JStr (yearOf t))]),
                 UpsertEmissions
               (JObj [(''emissionsId'', nullish (optGet rp ''emissionsId'') (JNum 0)),
                      (''companyId'', getProp company ''wikidataId''),
                      (''year'', JStr (yearOf t))]),
                 UpsertEconomy
               (JObj [(''economyId'', nullish (optGet rp ''economyId'') (JNum 0)),
                      (''companyId'', getProp company ''wikidataId''),
                      (''year'', JStr (yearOf t))])]
         @ (if optGet emissions ''scope1'' \<noteq> JUndefined
          then [UpsertScope1 dbEm (optGet emissions ''scope1'') metadata] else [])
       @ (if optGet emissions ''scope2'' \<noteq> JUndefined
          then [UpsertScope2 dbEm (optGet emissions ''scope2'') metadata] else [])
       @ (if truthy (optGet emissions ''scope3'')
          then [UpsertScope3 dbEm (optGet emissions ''scope3'') metadata] else [])
       @ (if optGet emissions ''statedTotalEmissions'' \<noteq> JUndefined
          then [UpsertStatedTotalEmissions dbEm (optGet emissions ''statedTotalEmissions'') metadata]
          else [])
       @ (if optGet emissions ''biogenic'' \<noteq> JUndefined
          then [UpsertBiogenic dbEm (optGet emissions ''biogenic'') metadata] else [])
       @ (if optGet emissions ''scope1And2'' \<noteq> JUndefined
          then [UpsertScope1And2 dbEm (optGet emissions ''scope1And2'') metadata] else [])
       @ (if turnover \<noteq> JUndefined then [UpsertTurnover dbEc turnover metadata] else [])
       @ (if optGet economy ''employees'' \<noteq> JUndefined
          then [UpsertEmployees dbEc (optGet economy ''employees'') metadata] else [])
      \<and> outs =
         [if optGet emissions ''scope1'' \<noteq> JUndefined
          then db (UpsertScope1 dbEm (optGet emissions ''scope1'') metadata)
          else Fulfilled (JBool False),
          if optGet emissions ''scope2'' \<noteq> JUndefined
          then db (UpsertScope2 dbEm (optGet emissions ''scope2'') metadata)
          else Fulfilled (JBool False),
          if truthy (optGet emissions ''scope3'')
          then db (UpsertScope3 dbEm (optGet emissions ''scope3'') metadata)
          else Fulfilled (optGet emissions ''scope3''),
          if optGet emissions ''statedTotalEmissions'' \<noteq> JUndefined
          then db (UpsertStatedTotalEmissions dbEm (optGet emissions ''statedTotalEmissions'') metadata)
          else Fulfilled (JBool False),
          if optGet emissions ''biogenic'' \<noteq> JUndefined
          then db (UpsertBiogenic dbEm (optGet emissions ''biogenic'') metadata)
          else Fulfilled (JBool False),
          if optGet emissions ''scope1And2'' \<noteq> JUndefined
          then db (UpsertScope1And2 dbEm (optGet emissions ''scope1And2'') metadata)
          else Fulfilled (JBool False),
          if turnover \<noteq> JUndefined then db (UpsertTurnover dbEc turnover metadata)
          else Fulfilled (JBool False),
          if optGet economy ''employees'' \<noteq> JUndefined
          then db (UpsertEmployees dbEc (optGet economy ''employees'') metadata)
          else Fulfilled (JBool False)]
      \<and> v = JUndefined)"
    (is "?L \<longleftrightarrow> ?R")
  proof
    assume ?L
    from this[unfolded savePeriod_fulfilled, folded emissions_def economy_def]
    obtain t rp dbEm dbEc entries where
      pre: "optGet p ''endDate'' = JDate t"
        "db (UpsertReportingPeriod (JObj company) metadata
               (JObj [(''startDate'', optGet p ''startDate''), (''endDate'', JDate t),
                      (''reportURL'', optGet p ''reportURL''), (''year'', JStr (yearOf t))]))
          = Fulfilled rp"
        "rp \<noteq> JUndefined" "rp \<noteq> JNull"
        "db (UpsertEmissions
               (JObj [(''emissionsId'', nullish (optGet rp ''emissionsId'') (JNum 0)),
                      (''companyId'', getProp company ''wikidataId''),
                      (''year'', JStr (yearOf t))])) = Fulfilled dbEm"
        "db (UpsertEconomy
               (JObj [(''economyId'', nullish (optGet rp ''economyId'') (JNum 0)),
                      (''companyId'', getProp company ''wikidataId''),
                      (''year'', JStr (yearOf t))])) = Fulfilled dbEc"
      and fg: "periodFieldGroups trim toUpperCase dbEm dbEc metadata emissions economy = Inr entries"
      and calls: "calls = [UpsertReportingPeriod (JObj company) metadata
               (JObj [(''startDate'', optGet p ''startDate''), (''endDate'', JDate t),
                      (''reportURL'', optGet p ''reportURL''), (''year'', JStr (yearOf t))]),
                 UpsertEmissions
               (JObj [(''emissionsId'', nullish (optGet rp ''emissionsId'') (JNum 0)),
                      (''companyId'', getProp company ''wikidataId''),
                      (''year'', JStr (yearOf t))]),
                 UpsertEconomy
               (JObj [(''economyId'', nullish (optGet rp ''economyId'') (JNum 0)),
                      (''companyId'', getProp company ''wikidataId''),
                      (''year'', JStr (yearOf t))])] @ callsOf entries"
      and outs: "outs = allSettled db entries" and v: "v = JUndefined"
      by blast
    from periodFieldGroups_run[OF fg] obtain turnover
      where n: "normaliseCurrency trim toUpperCase (optGet economy ''turnover'') = Inr turnover"
        and r: "callsOf entries =
         (if optGet emissions ''scope1'' \<noteq> JUndefined
          then [UpsertScope1 dbEm (optGet emissions ''scope1'') metadata] else [])
       @ (if optGet emissions ''scope2'' \<noteq> JUndefined
          then [UpsertScope2 dbEm (optGet emissions ''scope2'') metadata] else [])
       @ (if truthy (optGet emissions ''scope3'')
          then [UpsertScope3 dbEm (optGet emissions ''scope3'') metadata] else [])
       @ (if optGet emissions ''statedTotalEmissions'' \<noteq> JUndefined
          then [UpsertStatedTotalEmissions dbEm (optGet emissions ''statedTotalEmissions'') metadata]
          else [])
       @ (if optGet emissions ''biogenic'' \<noteq> JUndefined
          then [UpsertBiogenic dbEm (optGet emissions ''biogenic'') metadata] else [])
       @ (if optGet emissions ''scope1And2'' \<noteq> JUndefined
          then [UpsertScope1And2 dbEm (optGet emissions ''scope1And2'') metadata] else [])
       @ (if turnover \<noteq> JUndefined then [UpsertTurnover dbEc turnover metadata] else [])
       @ (if optGet economy ''employees'' \<noteq> JUndefined
          then [UpsertEmployees dbEc (optGet economy ''employees'') metadata] else [])"
        and o: "\<forall>db. allSettled db entries =
         [if optGet emissions ''scope1'' \<noteq> JUndefined
          then db (UpsertScope1 dbEm (optGet emissions ''scope1'') metadata)
          else Fulfilled (JBool False),
          if optGet emissions ''scope2'' \<noteq> JUndefined
          then db (UpsertScope2 dbEm (optGet emissions ''scope2'') metadata)
          else Fulfilled (JBool False),
          if truthy (optGet emissions ''scope3'')
          then db (UpsertScope3 dbEm (optGet emissions ''scope3'') metadata)
          else Fulfilled (optGet emissions ''scope3''),
          if optGet emissions ''statedTotalEmissions'' \<noteq> JUndefined
          then db (UpsertStatedTotalEmissions dbEm (optGet emissions ''statedTotalEmissions'') metadata)
          else Fulfilled (JBool False),
          if optGet emissions ''biogenic'' \<noteq> JUndefined
          then db (UpsertBiogenic dbEm (optGet emissions ''biogenic'') metadata)
          else Fulfilled (JBool False),
          if optGet emissions ''scope1And2'' \<noteq> JUndefined
          then db (UpsertScope1And2 dbEm (optGet emissions ''scope1And2'') metadata)
          else Fulfilled (JBool False),
          if turnover \<noteq> JUndefined then db (UpsertTurnover dbEc turnover metadata)
          else Fulfilled (JBool False),
          if optGet economy ''employees'' \<noteq> JUndefined
          then db (UpsertEmployees dbEc (optGet economy ''employees'') metadata)
          else Fulfilled (JBool False)]"
      by blast
    show ?R
      apply (rule exI[where x = t], rule exI[where x = rp], rule exI[where x = dbEm],
             rule exI[where x = dbEc], rule exI[where x = turnover])
      apply (intro conjI pre n v)
       apply (simp only: calls r)
      apply (simp only: outs o[rule_format])
      done
  next
    assume ?R
    then obtain t rp dbEm dbEc turnover where
      pre: "optGet p ''endDate'' = JDate t"
        "db (UpsertReportingPeriod (JObj company) metadata
               (JObj [(''startDate'', optGet p ''startDate''), (''endDate'', JDate t),
                      (''reportURL'', optGet p ''reportURL''), (''year'', JStr (yearOf t))]))
          = Fulfilled rp"
        "rp \<noteq> JUndefined" "rp \<noteq> JNull"
        "db (UpsertEmissions
               (JObj [(''emissionsId'', nullish (optGet rp ''emissionsId'') (JNum 0)),
                      (''companyId'', getProp company ''wikidataId''),
                      (''year'', JStr (yearOf t))])) = Fulfilled dbEm"
        "db (UpsertEconomy
               (JObj [(''economyId'', nullish (optGet rp ''economyId'') (JNum 0)),
                      (''companyId'', getProp company ''wikidataId''),
                      (''year'', JStr (yearOf t))])) = Fulfilled dbEc"
      and n: "normaliseCurrency trim toUpperCase (optGet economy ''turnover'') = Inr turnover"
      and calls: "calls = [UpsertReportingPeriod (JObj company) metadata
               (JObj [(''startDate'', optGet p ''startDate''), (''endDate'', JDate t),
                      (''reportURL'', optGet p ''reportURL''), (''year'', JStr (yearOf t))]),
                 UpsertEmissions
               (JObj [(''emissionsId'', nullish (optGet rp ''emissionsId'') (JNum 0)),
                      (''companyId'', getProp company ''wikidataId''),
                      (''year'', JStr (yearOf t))]),
                 UpsertEconomy
               (JObj [(''economyId'', nullish (optGet rp ''economyId'') (JNum 0)),
                      (''companyId'', getProp company ''wikidataId''),
                      (''year'', JStr (yearOf t))])]
         @ (if optGet emissions ''scope1'' \<noteq> JUndefined
          then [UpsertScope1 dbEm (optGet emissions ''scope1'') metadata] else [])
       @ (if optGet emissions ''scope2'' \<noteq> JUndefined
          then [UpsertScope2 dbEm (optGet emissions ''scope2'') metadata] else [])
       @ (if truthy (optGet emissions ''scope3'')
          then [UpsertScope3 dbEm (optGet emissions ''scope3'') metadata] else [])
       @ (if optGet emissions ''statedTotalEmissions'' \<noteq> JUndefined
          then [UpsertStatedTotalEmissions dbEm (optGet emissions ''statedTotalEmissions'') metadata]
          else [])
       @ (if optGet emissions ''biogenic'' \<noteq> JUndefined
          then [UpsertBiogenic dbEm (optGet emissions ''biogenic'') metadata] else [])
       @ (if optGet emissions ''scope1And2'' \<noteq> JUndefined
          then [UpsertScope1And2 dbEm (optGet emissions ''scope1And2'') metadata] else [])
       @ (if turnover \<noteq> JUndefined then [UpsertTurnover dbEc turnover metadata] else [])
       @ (if optGet economy ''employees'' \<noteq> JUndefined
          then [UpsertEmployees dbEc (optGet economy ''employees'') metadata] else [])"
      and outs: "outs =
         [if optGet emissions ''scope1'' \<noteq> JUndefined
          then db (UpsertScope1 dbEm (optGet emissions ''scope1'') metadata)
          else Fulfilled (JBool False),
          if optGet emissions ''scope2'' \<noteq> JUndefined
          then db (UpsertScope2 dbEm (optGet emissions ''scope2'') metadata)
          else Fulfilled (JBool False),
          if truthy (optGet emissions ''scope3'')
          then db (UpsertScope3 dbEm (optGet emissions ''scope3'') metadata)
          else Fulfilled (optGet emissions ''scope3''),
          if optGet emissions ''statedTotalEmissions'' \<noteq> JUndefined
          then db (UpsertStatedTotalEmissions dbEm (optGet emissions ''statedTotalEmissions'') metadata)
          else Fulfilled (JBool False),
          if optGet emissions ''biogenic'' \<noteq> JUndefined
          then db (UpsertBiogenic dbEm (optGet emissions ''biogenic'') metadata)
          else Fulfilled (JBool False),
          if optGet emissions ''scope1And2'' \<noteq> JUndefined
          then db (UpsertScope1And2 dbEm (optGet emissions ''scope1And2'') metadata)
          else Fulfilled (JBool False),
          if turnover \<noteq> JUndefined then db (UpsertTurnover dbEc turnover metadata)
          else Fulfilled (JBool False),
          if optGet economy ''employees'' \<noteq> JUndefined
          then db (UpsertEmployees dbEc (optGet economy ''employees'') metadata)
          else Fulfilled (JBool False)]"
      and v: "v = JUndefined"
      by (elim exE conjE) (rule that)
    define entries where "entries =
       [guard (optGet emissions ''scope1'' \<noteq> JUndefined) (UpsertScope1 dbEm (optGet emissions ''scope1'') metadata),
        guard (optGet emissions ''scope2'' \<noteq> JUndefined) (UpsertScope2 dbEm (optGet emissions ''scope2'') metadata),
        (if truthy (optGet emissions ''scope3'') then Promise (UpsertScope3 dbEm (optGet emissions ''scope3'') metadata)
         else Plain (optGet emissions ''scope3'')),
        guard (optGet emissions ''statedTotalEmissions'' \<noteq> JUndefined)
          (UpsertStatedTotalEmissions dbEm (optGet emissions ''statedTotalEmissions'') metadata),
        guard (optGet emissions ''biogenic'' \<noteq> JUndefined) (UpsertBiogenic dbEm (optGet emissions ''biogenic'') metadata),
        guard (optGet emissions ''scope1And2'' \<noteq> JUndefined) (UpsertScope1And2 dbEm (optGet emissions ''scope1And2'') metadata),
        guard (turnover \<noteq> JUndefined) (UpsertTurnover dbEc turnover metadata),
        guard (optGet economy ''employees'' \<noteq> JUndefined) (UpsertEmployees dbEc (optGet economy ''employees'') metadata)]"
    have fg: "periodFieldGroups trim toUpperCase dbEm dbEc metadata emissions economy = Inr entries"
      unfolding entries_def by (rule periodFieldGroups_ok[OF n])
    have c: "calls = [UpsertReportingPeriod (JObj company) metadata
               (JObj [(''startDate'', optGet p ''startDate''), (''endDate'', JDate t),
                      (''reportURL'', optGet p ''reportURL''), (''year'', JStr (yearOf t))]),
                 UpsertEmissions
               (JObj [(''emissionsId'', nullish (optGet rp ''emissionsId'') (JNum 0)),
                      (''companyId'', getProp company ''wikidataId''),
                      (''year'', JStr (yearOf t))]),
                 UpsertEconomy
               (JObj [(''economyId'', nullish (optGet rp ''economyId'') (JNum 0)),
                      (''companyId'', getProp company ''wikidataId''),
                      (''year'', JStr (yearOf t))])] @ callsOf entries"
      unfolding calls entries_def
      by (simp only: callsOf_guard callsOf_if callsOf.simps append_Nil2)
    have o: "outs = allSettled db entries"
      unfolding outs entries_def
      by (simp only: allSettled_guard allSettled_if allSettled_Nil)
    show ?L
      unfolding savePeriod_fulfilled
      apply (fold emissions_def economy_def)
      apply (rule exI[where x = t], rule exI[where x = rp], rule exI[where x = dbEm],
             rule exI[where x = dbEc], rule exI[where x = entries])
      apply (intro conjI pre fg c o v)
      done
  qed
  show "savePeriod trim toUpperCase db yearOf company metadata p = (calls, outs, Fulfilled v) \<longleftrightarrow>
     (\<exists>t rp dbEmissions dbEconomy turnover.
        let emissions = (if optGet p ''emissions'' = JUndefined then JObj [] else optGet p ''emissions'');
            economy = (if optGet p ''economy'' = JUndefined then JObj [] else optGet p ''economy'');
            scope1 = optGet emissions ''scope1'';
            scope2 = optGet emissions ''scope2'';
            scope3 = optGet emissions ''scope3'';
            statedTotalEmissions = optGet emissions ''statedTotalEmissions'';
            biogenic = optGet emissions ''biogenic'';
            scope1And2 = optGet emissions ''scope1And2'';
            employees = optGet economy ''employees'';
            c0 = UpsertReportingPeriod (JObj company) metadata
                   (JObj [(''startDate'', optGet p ''startDate''), (''endDate'', JDate t),
                          (''reportURL'', optGet p ''reportURL''), (''year'', JStr (yearOf t))]);
            c1 = UpsertEmissions
                   (JObj [(''emissionsId'', nullish (optGet rp ''emissionsId'') (JNum 0)),
                          (''companyId'', getProp company ''wikidataId''),
                          (''year'', JStr (yearOf t))]);
            c2 = UpsertEconomy
                   (JObj [(''economyId'', nullish (optGet rp ''economyId'') (JNum 0)),
                          (''companyId'', getProp company ''wikidataId''),
                          (''year'', JStr (yearOf t))])
        in optGet p ''endDate'' = JDate t
           \<and> db c0 = Fulfilled rp \<and> rp \<noteq> JUndefined \<and> rp \<noteq> JNull
           \<and> db c1 = Fulfilled dbEmissions \<and> db c2 = Fulfilled dbEconomy
           \<and> normaliseCurrency trim toUpperCase (optGet economy ''turnover'') = Inr turnover
           \<and> calls = [c0, c1, c2]
               @ (if scope1 \<noteq> JUndefined then [UpsertScope1 dbEmissions scope1 metadata] else [])
               @ (if scope2 \<noteq> JUndefined then [UpsertScope2 dbEmissions scope2 metadata] else [])
               @ (if truthy scope3 then [UpsertScope3 dbEmissions scope3 metadata] else [])
               @ (if statedTotalEmissions \<noteq> JUndefined
                  then [UpsertStatedTotalEmissions dbEmissions statedTotalEmissions metadata] else [])
               @ (if biogenic \<noteq> JUndefined then [UpsertBiogenic dbEmissions biogenic metadata] else [])
               @ (if scope1And2 \<noteq> JUndefined then [UpsertScope1And2 dbEmissions scope1And2 metadata] else [])
               @ (if turnover \<noteq> JUndefined then [UpsertTurnover dbEconomy turnover metadata] else [])
               @ (if employees \<noteq> JUndefined then [UpsertEmployees dbEconomy employees metadata] else [])
           \<and> outs =
               [if scope1 \<noteq> JUndefined then db (UpsertScope1 dbEmissions scope1 metadata)
                else Fulfilled (JBool False),
                if scope2 \<noteq> JUndefined then db (UpsertScope2 dbEmissions scope2 metadata)
                else Fulfilled (JBool False),
                if truthy scope3 then db (UpsertScope3 dbEmissions scope3 metadata)
                else Fulfilled scope3,
                if statedTotalEmissions \<noteq> JUndefined
                then db (UpsertStatedTotalEmissions dbEmissions statedTotalEmissions metadata)
                else Fulfilled (JBool False),
                if biogenic \<noteq> JUndefined then db (UpsertBiogenic dbEmissions biogenic metadata)
                else Fulfilled (JBool False),
                if scope1And2 \<noteq> JUndefined then db (UpsertScope1And2 dbEmissions scope1And2 metadata)
                else Fulfilled (JBool False),
                if turnover \<noteq> JUndefined then db (UpsertTurnover dbEconomy turnover metadata)
                else Fulfilled (JBool False),
                if employees \<noteq> JUndefined then db (UpsertEmployees dbEconomy employees metadata)
                else Fulfilled (JBool False)]
           \<and> v = JUndefined)"
    unfolding Let_def left emissions_def economy_def by (rule refl)
next
  show "savePeriod trim toUpperCase db yearOf company metadata p = (calls, outs, Fulfilled v) \<longrightarrow>
        (\<forall>db'. (\<forall>c. \<not> isFieldGroupCall c \<longrightarrow> db' c = db c) \<longrightarrow>
           (\<exists>outs'. savePeriod trim toUpperCase db' yearOf company metadata p
                      = (calls, outs', Fulfilled v)))"
  proof (intro impI allI)
    fix db'
    assume sp: "savePeriod trim toUpperCase db yearOf company metadata p = (calls, outs, Fulfilled v)"
      and agree: "\<forall>c. \<not> isFieldGroupCall c \<longrightarrow> db' c = db c"
    from sp[unfolded savePeriod_fulfilled] obtain t rp dbEm dbEc entries where
      t: "optGet p ''endDate'' = JDate t"
      and r0: "db (UpsertReportingPeriod (JObj company) metadata
               (JObj [(''startDate'', optGet p ''startDate''), (''endDate'', JDate t),
                      (''reportURL'', optGet p ''reportURL''), (''year'', JStr (yearOf t))]))
          = Fulfilled rp"
      and rp: "rp \<noteq> JUndefined" "rp \<noteq> JNull"
      and r1: "db (UpsertEmissions
               (JObj [(''emissionsId'', nullish (optGet rp ''emissionsId'') (JNum 0)),
                      (''companyId'', getProp company ''wikidataId''),
                      (''year'', JStr (yearOf t))])) = Fulfilled dbEm"
      and r2: "db (UpsertEconomy
               (JObj [(''economyId'', nullish (optGet rp ''economyId'') (JNum 0)),
                      (''companyId'', getProp company ''wikidataId''),
                      (''year'', JStr (yearOf t))])) = Fulfilled dbEc"
      and fg: "periodFieldGroups trim toUpperCase dbEm dbEc metadata
            (if optGet p ''emissions'' = JUndefined then JObj [] else optGet p ''emissions'')
            (if optGet p ''economy'' = JUndefined then JObj [] else optGet p ''economy'') = Inr entries"
      and calls: "calls = [UpsertReportingPeriod (JObj company) metadata
               (JObj [(''startDate'', optGet p ''startDate''), (''endDate'', JDate t),
                      (''reportURL'', optGet p ''reportURL''), (''year'', JStr (yearOf t))]),
                 UpsertEmissions
               (JObj [(''emissionsId'', nullish (optGet rp ''emissionsId'') (JNum 0)),
                      (''companyId'', getProp company ''wikidataId''),
                      (''year'', JStr (yearOf t))]),
                 UpsertEconomy
               (JObj [(''economyId'', nullish (optGet rp ''economyId'') (JNum 0)),
                      (''companyId'', getProp company ''wikidataId''),
                      (''year'', JStr (yearOf t))])] @ callsOf entries"
      and outs: "outs = allSettled db entries" and v: "v = JUndefined"
      by blast
    from agree r0 r1 r2 have
      "db' (UpsertReportingPeriod (JObj company) metadata
               (JObj [(''startDate'', optGet p ''startDate''), (''endDate'', JDate t),
                      (''reportURL'', optGet p ''reportURL''), (''year'', JStr (yearOf t))]))
          = Fulfilled rp"
      "db' (UpsertEmissions
               (JObj [(''emissionsId'', nullish (optGet rp ''emissionsId'') (JNum 0)),
                      (''companyId'', getProp company ''wikidataId''),
                      (''year'', JStr (yearOf t))])) = Fulfilled dbEm"
      "db' (UpsertEconomy
               (JObj [(''economyId'', nullish (optGet rp ''economyId'') (JNum 0)),
                      (''companyId'', getProp company ''wikidataId''),
                      (''year'', JStr (yearOf t))])) = Fulfilled dbEc"
      by simp_all
    with t rp fg calls v
    have "savePeriod trim toUpperCase db' yearOf company metadata p
            = (calls, allSettled db' entries, Fulfilled v)"
      unfolding savePeriod_fulfilled by blast
    then show "\<exists>outs'. savePeriod trim toUpperCase db' yearOf company metadata p
                      = (calls, outs', Fulfilled v)" ..
  qed
next
  define em where "em = (\<lambda>parsed. if optGet parsed ''emissions'' = JUndefined then JObj []
                           else optGet parsed ''emissions'')"
  have run: "postEmissions db localsEmissions metadata reqBody
      = (okResponse, callsOf (emissionsFieldGroups localsEmissions metadata (em parsed)),
         allSettled db (emissionsFieldGroups localsEmissions metadata (em parsed)))"
    if "postEmissionsBodySchema reqBody = Inr parsed" for parsed
    using that by (simp add: postEmissions_def Let_def em_def)
  have "postEmissions db localsEmissions metadata reqBody = (okResponse, calls', outs') \<longleftrightarrow>
       (\<exists>parsed. postEmissionsBodySchema reqBody = Inr parsed
          \<and> calls' = callsOf (emissionsFieldGroups localsEmissions metadata (em parsed))
          \<and> outs' = allSettled db (emissionsFieldGroups localsEmissions metadata (em parsed)))"
  proof (cases "postEmissionsBodySchema reqBody")
    case (Inl e)
    then show ?thesis by (simp add: postEmissions_def okResponse_def)
  next
    case (Inr parsed)
    with run[OF Inr] show ?thesis by auto
  qed
  then show "postEmissions db localsEmissions metadata reqBody = (okResponse, calls', outs') \<longleftrightarrow>
       (\<exists>parsed.
          let emissions = (if optGet parsed ''emissions'' = JUndefined then JObj []
                           else optGet parsed ''emissions'');
              scope1 = optGet emissions ''scope1'';
              scope2 = optGet emissions ''scope2'';
              scope3 = optGet emissions ''scope3'';
              scope1And2 = optGet emissions ''scope1And2'';
              statedTotalEmissions = optGet emissions ''statedTotalEmissions'';
              biogenic = optGet emissions ''biogenic''
          in postEmissionsBodySchema reqBody = Inr parsed
             \<and> calls' =
                 (if scope1 \<noteq> JUndefined then [UpsertScope1 localsEmissions scope1 metadata] else [])
                 @ (if scope2 \<noteq> JUndefined then [UpsertScope2 localsEmissions scope2 metadata] else [])
                 @ (if truthy scope3 then [UpsertScope3 localsEmissions scope3 metadata] else [])
                 @ (if scope1And2 \<noteq> JUndefined then [UpsertScope1And2 localsEmissions scope1And2 metadata]
                    else [])
                 @ (if statedTotalEmissions \<noteq> JUndefined
                    then [UpsertStatedTotalEmissions localsEmissions statedTotalEmissions metadata] else [])
                 @ (if biogenic \<noteq> JUndefined then [UpsertBiogenic localsEmissions biogenic metadata] else [])
             \<and> outs' =
                 [if scope1 \<noteq> JUndefined then db (UpsertScope1 localsEmissions scope1 metadata)
                  else Fulfilled (JBool False),
                  if scope2 \<noteq> JUndefined then db (UpsertScope2 localsEmissions scope2 metadata)
                  else Fulfilled (JBool False),
                  if truthy scope3 then db (UpsertScope3 localsEmissions scope3 metadata)
                  else Fulfilled scope3,
                  if scope1And2 \<noteq> JUndefined then db (UpsertScope1And2 localsEmissions scope1And2 metadata)
                  else Fulfilled (JBool False),
                  if statedTotalEmissions \<noteq> JUndefined
                  then db (UpsertStatedTotalEmissions localsEmissions statedTotalEmissions metadata)
                  else Fulfilled (JBool False),
                  if biogenic \<noteq> JUndefined then db (UpsertBiogenic localsEmissions biogenic metadata)
                  else Fulfilled (JBool False)])"
    unfolding Let_def emissionsFieldGroups_run em_def .
qed

theorem field_group_upserts_settle_independently_witness:
  "savePeriod asciiTrim asciiUpper
      (\<lambda>c. case c of UpsertScope1 a x m \<Rightarrow> Rejected (JStr ''scope1 failed'') | _ \<Rightarrow> Fulfilled (JObj []))
      (\<lambda>t. ''2023'') [(''wikidataId'', JStr ''Q1'')] JNull
      (JObj [(''startDate'', JDate 10), (''endDate'', JDate 20),
             (''emissions'', JObj [(''scope1'', JObj [(''total'', JNum 5)]), (''biogenic'', JNull)])])
   = ([UpsertReportingPeriod (JObj [(''wikidataId'', JStr ''Q1'')]) JNull
         (JObj [(''startDate'', JDate 10), (''endDate'', JDate 20), (''reportURL'', JUndefined),
                (''year'', JStr ''2023'')]),
       UpsertEmissions (JObj [(''emissionsId'', JNum 0), (''companyId'', JStr ''Q1''), (''year'', JStr ''2023'')]),
       UpsertEconomy (JObj [(''economyId'', JNum 0), (''companyId'', JStr ''Q1''), (''year'', JStr ''2023'')]),
       UpsertScope1 (JObj []) (JObj [(''total'', JNum 5)]) JNull,
       UpsertBiogenic (JObj []) JNull JNull],
      [Rejected (JStr ''scope1 failed''), Fulfilled (JBool False), Fulfilled JUndefined,
       Fulfilled (JBool False), Fulfilled (JObj []), Fulfilled (JBool False),
       Fulfilled (JBool False), Fulfilled (JBool False)],
      Fulfilled JUndefined)
   \<and> (\<exists>outs'.
        savePeriod asciiTrim asciiUpper
          (\<lambda>c. if isFieldGroupCall c then Rejected (JStr ''down'') else Fulfilled (JObj []))
          (\<lambda>t. ''2023'') [(''wikidataId'', JStr ''Q1'')] JNull
          (JObj [(''startDate'', JDate 10), (''endDate'', JDate 20),
                 (''emissions'', JObj [(''scope1'', JObj [(''total'', JNum 5)]), (''biogenic'', JNull)])])
        = ([UpsertReportingPeriod (JObj [(''wikidataId'', JStr ''Q1'')]) JNull
              (JObj [(''startDate'', JDate 10), (''endDate'', JDate 20), (''reportURL'', JUndefined),
                     (''year'', JStr ''2023'')]),
            UpsertEmissions (JObj [(''emissionsId'', JNum 0), (''companyId'', JStr ''Q1''), (''year'', JStr ''2023'')]),
            UpsertEconomy (JObj [(''economyId'', JNum 0), (''companyId'', JStr ''Q1''), (''year'', JStr ''2023'')]),
            UpsertScope1 (JObj []) (JObj [(''total'', JNum 5)]) JNull,
            UpsertBiogenic (JObj []) JNull JNull],
           outs', Fulfilled JUndefined))
   \<and> postEmissions
        (\<lambda>c. case c of UpsertScope1 a x m \<Rightarrow> Rejected (JStr ''scope1 failed'') | _ \<Rightarrow> Fulfilled (JObj []))
        (JStr ''emissions-row'') JNull
        (JObj [(''emissions'',
                JObj [(''scope1'', JObj [(''total'', JNum 5)]), (''biogenic'', JObj [(''total'', JNum 1)])])])
     = (okResponse,
        [UpsertScope1 (JStr ''emissions-row'') (JObj [(''total'', JNum 5)]) JNull,
         UpsertBiogenic (JStr ''emissions-row'') (JObj [(''total'', JNum 1)]) JNull],
        [Rejected (JStr ''scope1 failed''), Fulfilled (JBool False), Fulfilled JUndefined,
         Fulfilled (JBool False), Fulfilled (JBool False), Fulfilled (JObj [])])"
proof -
  let ?db = "\<lambda>c. case c of UpsertScope1 a x m \<Rightarrow> Rejected (JStr ''scope1 failed'') | _ \<Rightarrow> Fulfilled (JObj [])"
  let ?down = "\<lambda>c. if isFieldGroupCall c then Rejected (JStr ''down'') else Fulfilled (JObj [])"
  let ?p = "JObj [(''startDate'', JDate 10), (''endDate'', JDate 20),
             (''emissions'', JObj [(''scope1'', JObj [(''total'', JNum 5)]), (''biogenic'', JNull)])]"
  let ?calls = "[UpsertReportingPeriod (JObj [(''wikidataId'', JStr ''Q1'')]) JNull
         (JObj [(''startDate'', JDate 10), (''endDate'', JDate 20), (''reportURL'', JUndefined),
                (''year'', JStr ''2023'')]),
       UpsertEmissions (JObj [(''emissionsId'', JNum 0), (''companyId'', JStr ''Q1''), (''year'', JStr ''2023'')]),
       UpsertEconomy (JObj [(''economyId'', JNum 0), (''companyId'', JStr ''Q1''), (''year'', JStr ''2023'')]),
       UpsertScope1 (JObj []) (JObj [(''total'', JNum 5)]) JNull,
       UpsertBiogenic (JObj []) JNull JNull]"
  let ?outs = "[Rejected (JStr ''scope1 failed''), Fulfilled (JBool False), Fulfilled JUndefined,
       Fulfilled (JBool False), Fulfilled (JObj []), Fulfilled (JBool False),
       Fulfilled (JBool False), Fulfilled (JBool False)]"
  let ?body = "JObj [(''emissions'',
                JObj [(''scope1'', JObj [(''total'', JNum 5)]), (''biogenic'', JObj [(''total'', JNum 1)])])]"
  let ?calls' = "[UpsertScope1 (JStr ''emissions-row'') (JObj [(''total'', JNum 5)]) JNull,
         UpsertBiogenic (JStr ''emissions-row'') (JObj [(''total'', JNum 1)]) JNull]"
  let ?outs' = "[Rejected (JStr ''scope1 failed''), Fulfilled (JBool False), Fulfilled JUndefined,
         Fulfilled (JBool False), Fulfilled (JBool False), Fulfilled (JObj [])]"
  note inst = field_group_upserts_settle_independently
      [where trim = asciiTrim and toUpperCase = asciiUpper and db = ?db and yearOf = "\<lambda>t. ''2023''"
         and company = "[(''wikidataId'', JStr ''Q1'')]" and metadata = JNull and p = ?p
         and calls = ?calls and outs = ?outs and v = JUndefined
         and localsEmissions = "JStr ''emissions-row''" and reqBody = ?body
         and calls' = ?calls' and outs' = ?outs']
  have run: "savePeriod asciiTrim asciiUpper ?db (\<lambda>t. ''2023'') [(''wikidataId'', JStr ''Q1'')] JNull ?p
      = (?calls, ?outs, Fulfilled JUndefined)"
    by (simp add: savePeriod_def periodFieldGroups_def normaliseCurrency_def getProp_Cons getProp_Nil
        guard_def nullish_def allSettled_def Let_def)
  have agree: "\<forall>c. \<not> isFieldGroupCall c \<longrightarrow> ?down c = ?db c"
    by (auto split: dbCall.splits)
  from inst[THEN conjunct2, THEN conjunct1, THEN mp, OF run, THEN spec, of ?down, THEN mp, OF agree]
  have other: "\<exists>outs'. savePeriod asciiTrim asciiUpper ?down (\<lambda>t. ''2023'')
                  [(''wikidataId'', JStr ''Q1'')] JNull ?p = (?calls, outs', Fulfilled JUndefined)" .
  have parse: "postEmissionsBodySchema ?body = Inr ?body"
    by (simp add: postEmissionsBodySchema_def emissionsSchema_def scope2Schema_def scope3Schema_def
        statedTotalEmissionsSchema_def totalSchema_def zObject_def zOptional_def zNullable_def
        zNumber_def getProp_Cons getProp_Nil)
  have emissions: "postEmissions ?db (JStr ''emissions-row'') JNull ?body = (okResponse, ?calls', ?outs')"
    apply (rule inst[THEN conjunct2, THEN conjunct2, THEN iffD2])
    apply (rule exI[where x = ?body])
    apply (simp add: parse Let_def getProp_Cons getProp_Nil)
    done
  show ?thesis
    by (intro conjI run other emissions)
qed

lemma zNullable_null: "zNullable s JNull = Inr JNull"
  by (simp add: zNullable_def)

lemma zNullable_zOptional_undefined: "zNullable (zOptional s) JUndefined = Inr JUndefined"
  by (simp add: zNullable_def zOptional_def)

text \<open>A nullable optional property keeps \<open>null\<close> and \<open>undefined\<close> through parsing.\<close>

lemma nullable_field_kept:
  assumes "zNullable (zOptional s) (getProp kvs g) = Inr (getProp out g)"
  shows "(getProp kvs g = JNull \<longrightarrow> getProp out g = JNull)
       \<and> (getProp kvs g = JUndefined \<longrightarrow> getProp out g = JUndefined)"
  using assms by (auto simp: zNullable_null zNullable_zOptional_undefined)

text \<open>Setting a property to \<open>null\<close> keeps an object accepted when the key's schemas accept \<open>null\<close>.\<close>

lemma parseShape_accepts_null:
  assumes acc: "parseShape shape kvs = Inr out"
    and nullable: "\<forall>s. (g, s) \<in> set shape \<longrightarrow> s JNull = Inr JNull"
  shows "\<exists>out'. parseShape shape (setProp g JNull kvs) = Inr out'"
proof -
  from acc have all: "\<forall>(k, s) \<in> set shape. \<exists>w. s (getProp kvs k) = Inr w"
    using parseShape_accepts[of shape kvs] by blast
  have "\<forall>(k, s) \<in> set shape. \<exists>w. s (getProp (setProp g JNull kvs) k) = Inr w"
  proof (clarify)
    fix k s assume m: "(k, s) \<in> set shape"
    show "\<exists>w. s (getProp (setProp g JNull kvs) k) = Inr w"
    proof (cases "k = g")
      case True
      with m nullable show ?thesis by (auto simp: getProp_setProp)
    next
      case False
      from all m have "\<exists>w. s (getProp kvs k) = Inr w" by blast
      with False show ?thesis by (simp add: getProp_setProp)
    qed
  qed
  then show ?thesis using parseShape_accepts[of shape "setProp g JNull kvs"] by blast
qed

lemma emissionsSchema_null_field:
  assumes acc: "emissionsSchema (JObj kvs) = Inr parsed"
    and g: "g \<in> {''scope1'', ''scope2'', ''biogenic'', ''statedTotalEmissions'', ''scope1And2''}"
  shows "(getProp kvs g = JNull \<longrightarrow> optGet parsed g = JNull)
       \<and> (getProp kvs g = JUndefined \<longrightarrow> optGet parsed g = JUndefined)
       \<and> (\<exists>y. emissionsSchema (JObj (setProp g JNull kvs)) = Inr y)"
proof -
  define shape where "shape = [(''scope1'', zNullable (zOptional totalSchema)),
        (''scope2'', scope2Schema),
        (''scope3'', scope3Schema),
        (''biogenic'', zNullable (zOptional totalSchema)),
        (''statedTotalEmissions'', statedTotalEmissionsSchema),
        (''scope1And2'', zNullable (zOptional totalSchema))]"
  from acc have "zObject shape (JObj kvs) = Inr parsed"
    by (simp add: emissionsSchema_def zOptional_def shape_def)
  from zObject_accepted[OF this] obtain out where p: "parsed = JObj out"
    and ps: "parseShape shape kvs = Inr out" by auto
  have d: "distinct (map fst shape)" by (simp add: shape_def)
  have f1: "zNullable (zOptional totalSchema) (getProp kvs ''scope1'') = Inr (getProp out ''scope1'')"
    by (rule parseShape_field[OF ps d]) (simp add: shape_def)
  have f2: "scope2Schema (getProp kvs ''scope2'') = Inr (getProp out ''scope2'')"
    by (rule parseShape_field[OF ps d]) (simp add: shape_def)
  have f4: "zNullable (zOptional totalSchema) (getProp kvs ''biogenic'') = Inr (getProp out ''biogenic'')"
    by (rule parseShape_field[OF ps d]) (simp add: shape_def)
  have f5: "statedTotalEmissionsSchema (getProp kvs ''statedTotalEmissions'')
              = Inr (getProp out ''statedTotalEmissions'')"
    by (rule parseShape_field[OF ps d]) (simp add: shape_def)
  have f6: "zNullable (zOptional totalSchema) (getProp kvs ''scope1And2'') = Inr (getProp out ''scope1And2'')"
    by (rule parseShape_field[OF ps d]) (simp add: shape_def)
  from g consider "g = ''scope1''" | "g = ''scope2''" | "g = ''biogenic''"
    | "g = ''statedTotalEmissions''" | "g = ''scope1And2''" by blast
  then have kept: "(getProp kvs g = JNull \<longrightarrow> getProp out g = JNull)
       \<and> (getProp kvs g = JUndefined \<longrightarrow> getProp out g = JUndefined)"
  proof cases
    case 1
    with nullable_field_kept[OF f1] show ?thesis by simp
  next
    case 2
    with nullable_field_kept[OF f2[unfolded scope2Schema_def]] show ?thesis by simp
  next
    case 3
    with nullable_field_kept[OF f4] show ?thesis by simp
  next
    case 4
    with nullable_field_kept[OF f5[unfolded statedTotalEmissionsSchema_def]] show ?thesis by simp
  next
    case 5
    with nullable_field_kept[OF f6] show ?thesis by simp
  qed
  have g3: "g \<noteq> ''scope3''" using g by auto
  have "\<forall>s. (g, s) \<in> set shape \<longrightarrow> s JNull = Inr JNull"
    using g3 by (auto simp: shape_def zNullable_null scope2Schema_def statedTotalEmissionsSchema_def)
  from parseShape_accepts_null[OF ps this]
  have "\<exists>y. emissionsSchema (JObj (setProp g JNull kvs)) = Inr y"
    by (auto simp: emissionsSchema_def zOptional_def zObject_def shape_def)
  with kept p show ?thesis by simp
qed

lemma economySchema_null_field:
  assumes acc: "economySchema (JObj kvs) = Inr parsed"
    and g: "g \<in> {''turnover'', ''employees''}"
  shows "(getProp kvs g = JNull \<longrightarrow> optGet parsed g = JNull)
       \<and> (getProp kvs g = JUndefined \<longrightarrow> optGet parsed g = JUndefined)
       \<and> (\<exists>y. economySchema (JObj (setProp g JNull kvs)) = Inr y)"
proof -
  define turnoverSchema where "turnoverSchema = zObject [(''value'', zOptional zNumber),
                                                   (''currency'', zOptional zString)]"
  define employeesSchema where "employeesSchema = zObject [(''value'', zOptional zNumber),
                                                   (''unit'', zOptional zString)]"
  define shape where "shape = [(''turnover'', zNullable (zOptional turnoverSchema)),
                 (''employees'', zNullable (zOptional employeesSchema))]"
  have es: "economySchema = zOptional (zObject shape)"
    by (simp add: economySchema_def shape_def turnoverSchema_def employeesSchema_def)
  from acc have "zObject shape (JObj kvs) = Inr parsed"
    by (simp add: es zOptional_def)
  from zObject_accepted[OF this] obtain out where p: "parsed = JObj out"
    and ps: "parseShape shape kvs = Inr out" by auto
  have d: "distinct (map fst shape)" by (simp add: shape_def)
  have f1: "zNullable (zOptional turnoverSchema) (getProp kvs ''turnover'') = Inr (getProp out ''turnover'')"
    by (rule parseShape_field[OF ps d]) (simp add: shape_def)
  have f2: "zNullable (zOptional employeesSchema) (getProp kvs ''employees'') = Inr (getProp out ''employees'')"
    by (rule parseShape_field[OF ps d]) (simp add: shape_def)
  from g consider "g = ''turnover''" | "g = ''employees''" by blast
  then have kept: "(getProp kvs g = JNull \<longrightarrow> getProp out g = JNull)
       \<and> (getProp kvs g = JUndefined \<longrightarrow> getProp out g = JUndefined)"
  proof cases
    case 1
    with nullable_field_kept[OF f1] show ?thesis by simp
  next
    case 2
    with nullable_field_kept[OF f2] show ?thesis by simp
  qed
  have "\<forall>s. (g, s) \<in> set shape \<longrightarrow> s JNull = Inr JNull"
    by (auto simp: shape_def zNullable_null)
  from parseShape_accepts_null[OF ps this]
  have "\<exists>y. economySchema (JObj (setProp g JNull kvs)) = Inr y"
    by (auto simp: es zOptional_def zObject_def)
  with kept p show ?thesis by simp
qed

lemma normaliseCurrency_absent:
  "normaliseCurrency trim toUpperCase JUndefined = Inr JUndefined" "normaliseCurrency trim toUpperCase JNull = Inr JNull"
  by (simp_all add: normaliseCurrency_def)

text \<open>
  Claim C8. In the reporting-periods handler, for each of scope1, scope2, biogenic,
  statedTotalEmissions, scope1And2, turnover and employees: when the group is
  \<open>undefined\<close> its upsert is not called, and when it is \<open>null\<close> its upsert is called with
  \<open>null\<close>. Validation keeps the distinction: in an accepted emissions or economy object a
  submitted \<open>null\<close> is parsed to \<open>null\<close>, an omitted group to \<open>undefined\<close>, and the object
  stays accepted when the group is set to \<open>null\<close>.
\<close>

theorem omitted_and_null_field_groups:
  "(periodFieldGroups trim toUpperCase dbEm dbEc md emissions economy = Inr entries \<longrightarrow>
      (optGet emissions ''scope1'' = JUndefined \<longrightarrow> (\<forall>a x m. UpsertScope1 a x m \<notin> set (callsOf entries)))
    \<and> (optGet emissions ''scope1'' = JNull \<longrightarrow> UpsertScope1 dbEm JNull md \<in> set (callsOf entries))
    \<and> (optGet emissions ''scope2'' = JUndefined \<longrightarrow> (\<forall>a x m. UpsertScope2 a x m \<notin> set (callsOf entries)))
    \<and> (optGet emissions ''scope2'' = JNull \<longrightarrow> UpsertScope2 dbEm JNull md \<in> set (callsOf entries))
    \<and> (optGet emissions ''biogenic'' = JUndefined \<longrightarrow> (\<forall>a x m. UpsertBiogenic a x m \<notin> set (callsOf entries)))
    \<and> (optGet emissions ''biogenic'' = JNull \<longrightarrow> UpsertBiogenic dbEm JNull md \<in> set (callsOf entries))
    \<and> (optGet emissions ''statedTotalEmissions'' = JUndefined \<longrightarrow>
          (\<forall>a x m. UpsertStatedTotalEmissions a x m \<notin> set (callsOf entries)))
    \<and> (optGet emissions ''statedTotalEmissions'' = JNull \<longrightarrow>
          UpsertStatedTotalEmissions dbEm JNull md \<in> set (callsOf entries))
    \<and> (optGet emissions ''scope1And2'' = JUndefined \<longrightarrow> (\<forall>a x m. UpsertScope1And2 a x m \<notin> set (callsOf entries)))
    \<and> (optGet emissions ''scope1And2'' = JNull \<longrightarrow> UpsertScope1And2 dbEm JNull md \<in> set (callsOf entries))
    \<and> (optGet economy ''turnover'' = JUndefined \<longrightarrow> (\<forall>a x m. UpsertTurnover a x m \<notin> set (callsOf entries)))
    \<and> (optGet economy ''turnover'' = JNull \<longrightarrow> UpsertTurnover dbEc JNull md \<in> set (callsOf entries))
    \<and> (optGet economy ''employees'' = JUndefined \<longrightarrow> (\<forall>a x m. UpsertEmployees a x m \<notin> set (callsOf entries)))
    \<and> (optGet economy ''employees'' = JNull \<longrightarrow> UpsertEmployees dbEc JNull md \<in> set (callsOf entries)))
   \<and> (emissionsSchema (JObj kvs) = Inr parsedEmissions
        \<and> g \<in> {''scope1'', ''scope2'', ''biogenic'', ''statedTotalEmissions'', ''scope1And2''} \<longrightarrow>
        (getProp kvs g = JNull \<longrightarrow> optGet parsedEmissions g = JNull)
      \<and> (getProp kvs g = JUndefined \<longrightarrow> optGet parsedEmissions g = JUndefined)
      \<and> (\<exists>y. emissionsSchema (JObj (setProp g JNull kvs)) = Inr y))
   \<and> (economySchema (JObj kvs') = Inr parsedEconomy \<and> g' \<in> {''turnover'', ''employees''} \<longrightarrow>
        (getProp kvs' g' = JNull \<longrightarrow> optGet parsedEconomy g' = JNull)
      \<and> (getProp kvs' g' = JUndefined \<longrightarrow> optGet parsedEconomy g' = JUndefined)
      \<and> (\<exists>y. economySchema (JObj (setProp g' JNull kvs')) = Inr y))"
proof (intro conjI)
  show "periodFieldGroups trim toUpperCase dbEm dbEc md emissions economy = Inr entries \<longrightarrow>
      (optGet emissions ''scope1'' = JUndefined \<longrightarrow> (\<forall>a x m. UpsertScope1 a x m \<notin> set (callsOf entries)))
    \<and> (optGet emissions ''scope1'' = JNull \<longrightarrow> UpsertScope1 dbEm JNull md \<in> set (callsOf entries))
    \<and> (optGet emissions ''scope2'' = JUndefined \<longrightarrow> (\<forall>a x m. UpsertScope2 a x m \<notin> set (callsOf entries)))
    \<and> (optGet emissions ''scope2'' = JNull \<longrightarrow> UpsertScope2 dbEm JNull md \<in> set (callsOf entries))
    \<and> (optGet emissions ''biogenic'' = JUndefined \<longrightarrow> (\<forall>a x m. UpsertBiogenic a x m \<notin> set (callsOf entries)))
    \<and> (optGet emissions ''biogenic'' = JNull \<longrightarrow> UpsertBiogenic dbEm JNull md \<in> set (callsOf entries))
    \<and> (optGet emissions ''statedTotalEmissions'' = JUndefined \<longrightarrow>
          (\<forall>a x m. UpsertStatedTotalEmissions a x m \<notin> set (callsOf entries)))
    \<and> (optGet emissions ''statedTotalEmissions'' = JNull \<longrightarrow>
          UpsertStatedTotalEmissions dbEm JNull md \<in> set (callsOf entries))
    \<and> (optGet emissions ''scope1And2'' = JUndefined \<longrightarrow> (\<forall>a x m. UpsertScope1And2 a x m \<notin> set (callsOf entries)))
    \<and> (optGet emissions ''scope1And2'' = JNull \<longrightarrow> UpsertScope1And2 dbEm JNull md \<in> set (callsOf entries))
    \<and> (optGet economy ''turnover'' = JUndefined \<longrightarrow> (\<forall>a x m. UpsertTurnover a x m \<notin> set (callsOf entries)))
    \<and> (optGet economy ''turnover'' = JNull \<longrightarrow> UpsertTurnover dbEc JNull md \<in> set (callsOf entries))
    \<and> (optGet economy ''employees'' = JUndefined \<longrightarrow> (\<forall>a x m. UpsertEmployees a x m \<notin> set (callsOf entries)))
    \<and> (optGet economy ''employees'' = JNull \<longrightarrow> UpsertEmployees dbEc JNull md \<in> set (callsOf entries))"
  proof
    assume fg: "periodFieldGroups trim toUpperCase dbEm dbEc md emissions economy = Inr entries"
    from periodFieldGroups_entries[OF fg] obtain turnover where
      n: "normaliseCurrency trim toUpperCase (optGet economy ''turnover'') = Inr turnover"
      and e: "entries =
       [guard (optGet emissions ''scope1'' \<noteq> JUndefined) (UpsertScope1 dbEm (optGet emissions ''scope1'') md),
        guard (optGet emissions ''scope2'' \<noteq> JUndefined) (UpsertScope2 dbEm (optGet emissions ''scope2'') md),
        (if truthy (optGet emissions ''scope3'') then Promise (UpsertScope3 dbEm (optGet emissions ''scope3'') md)
         else Plain (optGet emissions ''scope3'')),
        guard (optGet emissions ''statedTotalEmissions'' \<noteq> JUndefined)
          (UpsertStatedTotalEmissions dbEm (optGet emissions ''statedTotalEmissions'') md),
        guard (optGet emissions ''biogenic'' \<noteq> JUndefined) (UpsertBiogenic dbEm (optGet emissions ''biogenic'') md),
        guard (optGet emissions ''scope1And2'' \<noteq> JUndefined) (UpsertScope1And2 dbEm (optGet emissions ''scope1And2'') md),
        guard (turnover \<noteq> JUndefined) (UpsertTurnover dbEc turnover md),
        guard (optGet economy ''employees'' \<noteq> JUndefined) (UpsertEmployees dbEc (optGet economy ''employees'') md)]"
      by blast
    have tu: "optGet economy ''turnover'' = JUndefined \<Longrightarrow> turnover = JUndefined"
      and tn: "optGet economy ''turnover'' = JNull \<Longrightarrow> turnover = JNull"
      using n by (simp_all add: normaliseCurrency_absent)
    have s3: "Promise c = (if b then Promise c' else Plain x) \<longleftrightarrow> b \<and> c = c'" for c c' b x
      by auto
    show "(optGet emissions ''scope1'' = JUndefined \<longrightarrow> (\<forall>a x m. UpsertScope1 a x m \<notin> set (callsOf entries)))
    \<and> (optGet emissions ''scope1'' = JNull \<longrightarrow> UpsertScope1 dbEm JNull md \<in> set (callsOf entries))
    \<and> (optGet emissions ''scope2'' = JUndefined \<longrightarrow> (\<forall>a x m. UpsertScope2 a x m \<notin> set (callsOf entries)))
    \<and> (optGet emissions ''scope2'' = JNull \<longrightarrow> UpsertScope2 dbEm JNull md \<in> set (callsOf entries))
    \<and> (optGet emissions ''biogenic'' = JUndefined \<longrightarrow> (\<forall>a x m. UpsertBiogenic a x m \<notin> set (callsOf entries)))
    \<and> (optGet emissions ''biogenic'' = JNull \<longrightarrow> UpsertBiogenic dbEm JNull md \<in> set (callsOf entries))
    \<and> (optGet emissions ''statedTotalEmissions'' = JUndefined \<longrightarrow>
          (\<forall>a x m. UpsertStatedTotalEmissions a x m \<notin> set (callsOf entries)))
    \<and> (optGet emissions ''statedTotalEmissions'' = JNull \<longrightarrow>
          UpsertStatedTotalEmissions dbEm JNull md \<in> set (callsOf entries))
    \<and> (optGet emissions ''scope1And2'' = JUndefined \<longrightarrow> (\<forall>a x m. UpsertScope1And2 a x m \<notin> set (callsOf entries)))
    \<and> (optGet emissions ''scope1And2'' = JNull \<longrightarrow> UpsertScope1And2 dbEm JNull md \<in> set (callsOf entries))
    \<and> (optGet economy ''turnover'' = JUndefined \<longrightarrow> (\<forall>a x m. UpsertTurnover a x m \<notin> set (callsOf entries)))
    \<and> (optGet economy ''turnover'' = JNull \<longrightarrow> UpsertTurnover dbEc JNull md \<in> set (callsOf entries))
    \<and> (optGet economy ''employees'' = JUndefined \<longrightarrow> (\<forall>a x m. UpsertEmployees a x m \<notin> set (callsOf entries)))
    \<and> (optGet economy ''employees'' = JNull \<longrightarrow> UpsertEmployees dbEc JNull md \<in> set (callsOf entries))"
      unfolding e using tu tn
      by (intro conjI impI allI) (simp_all add: callsOf_set Promise_guard s3 split del: if_split)
  qed
next
  show "emissionsSchema (JObj kvs) = Inr parsedEmissions
        \<and> g \<in> {''scope1'', ''scope2'', ''biogenic'', ''statedTotalEmissions'', ''scope1And2''} \<longrightarrow>
        (getProp kvs g = JNull \<longrightarrow> optGet parsedEmissions g = JNull)
      \<and> (getProp kvs g = JUndefined \<longrightarrow> optGet parsedEmissions g = JUndefined)
      \<and> (\<exists>y. emissionsSchema (JObj (setProp g JNull kvs)) = Inr y)"
    using emissionsSchema_null_field[of kvs parsedEmissions g] by blast
next
  show "economySchema (JObj kvs') = Inr parsedEconomy \<and> g' \<in> {''turnover'', ''employees''} \<longrightarrow>
        (getProp kvs' g' = JNull \<longrightarrow> optGet parsedEconomy g' = JNull)
      \<and> (getProp kvs' g' = JUndefined \<longrightarrow> optGet parsedEconomy g' = JUndefined)
      \<and> (\<exists>y. economySchema (JObj (setProp g' JNull kvs')) = Inr y)"
    using economySchema_null_field[of kvs' parsedEconomy g'] by blast
qed

theorem omitted_and_null_field_groups_witness:
  "postReportingPeriods asciiTrim asciiUpper (\<lambda>c. Fulfilled (JObj [])) (\<lambda>v. case v of JNum n \<Rightarrow> Some n | _ \<Rightarrow> None)
      (\<lambda>t. ''2023'') [(''wikidataId'', JStr ''Q1'')] JNull
      (JObj [(''reportingPeriods'',
         JArr [JObj [(''startDate'', JNum 10), (''endDate'', JNum 20),
                     (''emissions'', JObj [(''scope1'', JNull), (''scope2'', JNull), (''biogenic'', JNull),
                                          (''statedTotalEmissions'', JNull), (''scope1And2'', JNull)]),
                     (''economy'', JObj [(''turnover'', JNull), (''employees'', JNull)])],
               JObj [(''startDate'', JNum 30), (''endDate'', JNum 40)]])])
    = (okResponse,
       [([UpsertReportingPeriod (JObj [(''wikidataId'', JStr ''Q1'')]) JNull
            (JObj [(''startDate'', JDate 10), (''endDate'', JDate 20), (''reportURL'', JUndefined),
                   (''year'', JStr ''2023'')]),
          UpsertEmissions (JObj [(''emissionsId'', JNum 0), (''companyId'', JStr ''Q1''), (''year'', JStr ''2023'')]),
          UpsertEconomy (JObj [(''economyId'', JNum 0), (''companyId'', JStr ''Q1''), (''year'', JStr ''2023'')]),
          UpsertScope1 (JObj []) JNull JNull,
          UpsertScope2 (JObj []) JNull JNull,
          UpsertStatedTotalEmissions (JObj []) JNull JNull,
          UpsertBiogenic (JObj []) JNull JNull,
          UpsertScope1And2 (JObj []) JNull JNull,
          UpsertTurnover (JObj []) JNull JNull,
          UpsertEmployees (JObj []) JNull JNull],
         [Fulfilled (JObj []), Fulfilled (JObj []), Fulfilled JUndefined, Fulfilled (JObj []),
          Fulfilled (JObj []), Fulfilled (JObj []), Fulfilled (JObj []), Fulfilled (JObj [])],
         Fulfilled JUndefined),
        ([UpsertReportingPeriod (JObj [(''wikidataId'', JStr ''Q1'')]) JNull
            (JObj [(''startDate'', JDate 30), (''endDate'', JDate 40), (''reportURL'', JUndefined),
                   (''year'', JStr ''2023'')]),
          UpsertEmissions (JObj [(''emissionsId'', JNum 0), (''companyId'', JStr ''Q1''), (''year'', JStr ''2023'')]),
          UpsertEconomy (JObj [(''economyId'', JNum 0), (''companyId'', JStr ''Q1''), (''year'', JStr ''2023'')])],
         [Fulfilled (JBool False), Fulfilled (JBool False), Fulfilled JUndefined, Fulfilled (JBool False),
          Fulfilled (JBool False), Fulfilled (JBool False), Fulfilled (JBool False), Fulfilled (JBool False)],
         Fulfilled JUndefined)])
   \<and> UpsertScope1 (JObj []) JNull JNull
       \<in> set (callsOf [Promise (UpsertScope1 (JObj []) JNull JNull), Plain (JBool False), Plain JUndefined,
                        Plain (JBool False), Plain (JBool False), Plain (JBool False),
                        Plain (JBool False), Plain (JBool False)])"
proof -
  let ?nd = "\<lambda>v. case v of JNum n \<Rightarrow> Some n | _ \<Rightarrow> None"
  let ?em = "JObj [(''scope1'', JNull), (''scope2'', JNull), (''biogenic'', JNull),
                   (''statedTotalEmissions'', JNull), (''scope1And2'', JNull)]"
  let ?ec = "JObj [(''turnover'', JNull), (''employees'', JNull)]"
  have em: "emissionsSchema ?em = Inr ?em"
    by (simp add: emissionsSchema_def scope2Schema_def scope3Schema_def statedTotalEmissionsSchema_def
        zObject_def zOptional_def zNullable_def getProp_Cons getProp_Nil)
  have ec: "economySchema ?ec = Inr ?ec"
    by (simp add: economySchema_def zObject_def zOptional_def zNullable_def getProp_Cons getProp_Nil)
  have emu: "emissionsSchema JUndefined = Inr JUndefined" by (simp add: emissionsSchema_def zOptional_def)
  have ecu: "economySchema JUndefined = Inr JUndefined" by (simp add: economySchema_def zOptional_def)
  have parse: "postReportingPeriodsSchema ?nd
      (JObj [(''reportingPeriods'',
         JArr [JObj [(''startDate'', JNum 10), (''endDate'', JNum 20), (''emissions'', ?em), (''economy'', ?ec)],
               JObj [(''startDate'', JNum 30), (''endDate'', JNum 40)]])])
     = Inr (JObj [(''reportingPeriods'',
         JArr [JObj [(''startDate'', JDate 10), (''endDate'', JDate 20), (''emissions'', ?em), (''economy'', ?ec)],
               JObj [(''startDate'', JDate 30), (''endDate'', JDate 40)]])])"
    by (simp add: postReportingPeriodsSchema_def reportingPeriodSchema_def zObject_def zArray_def
        zRefine_def zCoerceDate_def zOptional_def em ec emu ecu startsBeforeEnd_def
        getProp_Cons getProp_Nil)
  have ev: "postReportingPeriods asciiTrim asciiUpper (\<lambda>c. Fulfilled (JObj [])) ?nd
      (\<lambda>t. ''2023'') [(''wikidataId'', JStr ''Q1'')] JNull
      (JObj [(''reportingPeriods'',
         JArr [JObj [(''startDate'', JNum 10), (''endDate'', JNum 20), (''emissions'', ?em), (''economy'', ?ec)],
               JObj [(''startDate'', JNum 30), (''endDate'', JNum 40)]])])
    = (okResponse,
       [([UpsertReportingPeriod (JObj [(''wikidataId'', JStr ''Q1'')]) JNull
            (JObj [(''startDate'', JDate 10), (''endDate'', JDate 20), (''reportURL'', JUndefined),
                   (''year'', JStr ''2023'')]),
          UpsertEmissions (JObj [(''emissionsId'', JNum 0), (''companyId'', JStr ''Q1''), (''year'', JStr ''2023'')]),
          UpsertEconomy (JObj [(''economyId'', JNum 0), (''companyId'', JStr ''Q1''), (''year'', JStr ''2023'')]),
          UpsertScope1 (JObj []) JNull JNull,
          UpsertScope2 (JObj []) JNull JNull,
          UpsertStatedTotalEmissions (JObj []) JNull JNull,
          UpsertBiogenic (JObj []) JNull JNull,
          UpsertScope1And2 (JObj []) JNull JNull,
          UpsertTurnover (JObj []) JNull JNull,
          UpsertEmployees (JObj []) JNull JNull],
         [Fulfilled (JObj []), Fulfilled (JObj []), Fulfilled JUndefined, Fulfilled (JObj []),
          Fulfilled (JObj []), Fulfilled (JObj []), Fulfilled (JObj []), Fulfilled (JObj [])],
         Fulfilled JUndefined),
        ([UpsertReportingPeriod (JObj [(''wikidataId'', JStr ''Q1'')]) JNull
            (JObj [(''startDate'', JDate 30), (''endDate'', JDate 40), (''reportURL'', JUndefined),
                   (''year'', JStr ''2023'')]),
          UpsertEmissions (JObj [(''emissionsId'', JNum 0), (''companyId'', JStr ''Q1''), (''year'', JStr ''2023'')]),
          UpsertEconomy (JObj [(''economyId'', JNum 0), (''companyId'', JStr ''Q1''), (''year'', JStr ''2023'')])],
         [Fulfilled (JBool False), Fulfilled (JBool False), Fulfilled JUndefined, Fulfilled (JBool False),
          Fulfilled (JBool False), Fulfilled (JBool False), Fulfilled (JBool False), Fulfilled (JBool False)],
         Fulfilled JUndefined)])"
    by (simp add: postReportingPeriods_def parse savePeriod_def periodFieldGroups_def
        normaliseCurrency_def guard_def nullish_def allSettled_def getProp_Cons getProp_Nil Let_def)
  have fg: "periodFieldGroups asciiTrim asciiUpper (JObj []) (JObj []) JNull (JObj [(''scope1'', JNull)]) (JObj [])
     = Inr [Promise (UpsertScope1 (JObj []) JNull JNull), Plain (JBool False), Plain JUndefined,
            Plain (JBool False), Plain (JBool False), Plain (JBool False),
            Plain (JBool False), Plain (JBool False)]"
    by (simp add: periodFieldGroups_def normaliseCurrency_def guard_def getProp_Cons getProp_Nil Let_def)
  have s1: "optGet (JObj [(''scope1'', JNull)]) ''scope1'' = JNull" by (simp add: getProp_Cons)
  from omitted_and_null_field_groups[THEN conjunct1, rule_format, OF fg]
  have "optGet (JObj [(''scope1'', JNull)]) ''scope1'' = JNull \<longrightarrow>
      UpsertScope1 (JObj []) JNull JNull
       \<in> set (callsOf [Promise (UpsertScope1 (JObj []) JNull JNull), Plain (JBool False), Plain JUndefined,
                        Plain (JBool False), Plain (JBool False), Plain (JBool False),
                        Plain (JBool False), Plain (JBool False)])"
    by blast
  with s1 ev show ?thesis by blast
qed

section \<open>Properties of the goals, initiatives and equalities handlers\<close>

text \<open>
  Claim C9. A POST to the goals, initiatives or equalities route whose submitted array is
  empty passes validation, makes no call to the persistence layer (so the store is as
  before) and is answered \<open>{ ok: true }\<close>.
\<close>

theorem empty_array_makes_no_create_call:
  "(optGet reqBody ''goals'' = JArr [] \<longrightarrow>
      postGoals db wikidataId metadata reqBody = (okResponse, [])
      \<and> storeAfter effect (snd (postGoals db wikidataId metadata reqBody)) st = st)
   \<and> (optGet reqBody ''initiatives'' = JArr [] \<longrightarrow>
      postInitiatives db wikidataId metadata reqBody = (okResponse, [])
      \<and> storeAfter effect (snd (postInitiatives db wikidataId metadata reqBody)) st = st)
   \<and> (optGet reqBody ''equalities'' = JArr [] \<longrightarrow>
      postEqualities db wikidataId metadata reqBody = (okResponse, [])
      \<and> storeAfter effect (snd (postEqualities db wikidataId metadata reqBody)) st = st)"
proof (intro conjI impI)
  assume h: "optGet reqBody ''goals'' = JArr []"
  then obtain kvs where b: "reqBody = JObj kvs" by (cases reqBody) auto
  with h have g: "getProp kvs ''goals'' = JArr []" by simp
  have "postGoals db wikidataId metadata reqBody = (okResponse, [])"
    by (simp add: postGoals_def processRequest_def zObject_def zArray_def goalsHandler_def
        b g getProp_Cons getProp_Nil Let_def)
  then show "postGoals db wikidataId metadata reqBody = (okResponse, [])"
    and "storeAfter effect (snd (postGoals db wikidataId metadata reqBody)) st = st"
    by (simp_all add: storeAfter_def)
next
  assume h: "optGet reqBody ''initiatives'' = JArr []"
  then obtain kvs where b: "reqBody = JObj kvs" by (cases reqBody) auto
  with h have g: "getProp kvs ''initiatives'' = JArr []" by simp
  have "postInitiatives db wikidataId metadata reqBody = (okResponse, [])"
    by (simp add: postInitiatives_def processRequest_def zObject_def zArray_def
        initiativesHandler_def b g getProp_Cons getProp_Nil Let_def)
  then show "postInitiatives db wikidataId metadata reqBody = (okResponse, [])"
    and "storeAfter effect (snd (postInitiatives db wikidataId metadata reqBody)) st = st"
    by (simp_all add: storeAfter_def)
next
  assume h: "optGet reqBody ''equalities'' = JArr []"
  then obtain kvs where b: "reqBody = JObj kvs" by (cases reqBody) auto
  with h have g: "getProp kvs ''equalities'' = JArr []" by simp
  have "postEqualities db wikidataId metadata reqBody = (okResponse, [])"
    by (simp add: postEqualities_def processRequest_def zObject_def zArray_def
        equalitiesHandler_def b g getProp_Cons getProp_Nil Let_def)
  then show "postEqualities db wikidataId metadata reqBody = (okResponse, [])"
    and "storeAfter effect (snd (postEqualities db wikidataId metadata reqBody)) st = st"
    by (simp_all add: storeAfter_def)
qed

theorem empty_array_makes_no_create_call_witness:
  "optGet (JObj [(''goals'', JArr [])]) ''goals'' = JArr []
   \<and> postGoals (\<lambda>c. Rejected JNull) (JStr ''Q1'') JNull (JObj [(''goals'', JArr [])]) = (okResponse, [])
   \<and> storeAfter (\<lambda>c n. Suc n) (snd (postGoals (\<lambda>c. Rejected JNull) (JStr ''Q1'') JNull (JObj [(''goals'', JArr [])]))) (0::nat) = 0
   \<and> postInitiatives (\<lambda>c. Rejected JNull) (JStr ''Q1'') JNull (JObj [(''initiatives'', JArr [])]) = (okResponse, [])
   \<and> postEqualities (\<lambda>c. Rejected JNull) (JStr ''Q1'') JNull (JObj [(''equalities'', JArr [])]) = (okResponse, [])"
  using empty_array_makes_no_create_call
          [of "JObj [(''goals'', JArr [])]" "\<lambda>c. Rejected JNull" "JStr ''Q1''" JNull "\<lambda>c n. Suc n" "0::nat"]
        empty_array_makes_no_create_call
          [of "JObj [(''initiatives'', JArr [])]" "\<lambda>c. Rejected JNull" "JStr ''Q1''" JNull "\<lambda>c n. Suc n" "0::nat"]
        empty_array_makes_no_create_call
          [of "JObj [(''equalities'', JArr [])]" "\<lambda>c. Rejected JNull" "JStr ''Q1''" JNull "\<lambda>c n. Suc n" "0::nat"]
  by (simp add: getProp_def storeAfter_def)

end
